theory Spec2Isabelle
  imports Complex_Main "HOL-Library.Log_Nat"
begin

section \<open>JavaScript values used by the data pipeline\<close>

text \<open>
  A JavaScript number is a double: a finite value, given here by the rational it is, or
  one of the three non-finite values. The two zeros are not told apart.
\<close>

datatype jsnum = Fin rat | PosInf | NegInf | NaN

text \<open>
  Rounding of an exact result to a double (binary64, round to nearest, ties to even).
  \<open>binade x\<close> is the exponent \<open>e\<close> with \<open>2^e \<le> |x| < 2^(e+1)\<close>; the spacing of the
  doubles there is \<open>2^(e - 52)\<close>, and \<open>2^(-1074)\<close> below the normal range; a result that
  rounds to \<open>2^1024\<close> overflows to an infinity.
\<close>

definition binade :: "rat \<Rightarrow> int" where
  "binade x =
     (if 1 \<le> \<bar>x\<bar> then bitlen \<lfloor>\<bar>x\<bar>\<rfloor> - 1 else - bitlen (\<lceil>1 / \<bar>x\<bar>\<rceil> - 1))"

definition round_even :: "rat \<Rightarrow> int" where
  "round_even z =
     (let f = \<lfloor>z\<rfloor>; r = z - of_int f
      in if r < 1 / 2 then f else if 1 / 2 < r then f + 1 else if even f then f else f + 1)"

definition to_double :: "rat \<Rightarrow> jsnum" where
  "to_double x =
     (if x = 0 then Fin 0
      else
        (let e = max (binade x) (- 1022);
             q = 2 powi (e - 52);
             v = of_int (round_even (\<bar>x\<bar> / q)) * q
         in if 2 ^ 1024 \<le> v then (if 0 < x then PosInf else NegInf)
            else Fin (if 0 < x then v else - v)))"

text \<open>
  A field read off a parsed JSON object: absent (\<open>undefined\<close>), \<open>null\<close>, or a
  finite number (the double that \<open>JSON.parse\<close> made of it).
\<close>

datatype jsval = Undefined | Null | Num rat

fun truthy :: "jsval \<Rightarrow> bool" where
  "truthy Undefined = False"
| "truthy Null = False"
| "truthy (Num r) = (r \<noteq> 0)"

fun ToNumber :: "jsval \<Rightarrow> jsnum" where
  "ToNumber Undefined = NaN"
| "ToNumber Null = Fin 0"
| "ToNumber (Num r) = Fin r"

text \<open>
  The operators \<open>+\<close>, \<open>-\<close>, \<open>/\<close> and \<open>*\<close> on numbers: on finite operands the exact
  result, rounded to a double.
\<close>

fun js_add :: "jsnum \<Rightarrow> jsnum \<Rightarrow> jsnum" where
  "js_add NaN _ = NaN"
| "js_add _ NaN = NaN"
| "js_add (Fin a) (Fin b) = to_double (a + b)"
| "js_add (Fin _) PosInf = PosInf"
| "js_add (Fin _) NegInf = NegInf"
| "js_add PosInf NegInf = NaN"
| "js_add NegInf PosInf = NaN"
| "js_add PosInf _ = PosInf"
| "js_add NegInf _ = NegInf"

fun js_sub :: "jsnum \<Rightarrow> jsnum \<Rightarrow> jsnum" where
  "js_sub NaN _ = NaN"
| "js_sub _ NaN = NaN"
| "js_sub (Fin a) (Fin b) = to_double (a - b)"
| "js_sub (Fin _) PosInf = NegInf"
| "js_sub (Fin _) NegInf = PosInf"
| "js_sub PosInf PosInf = NaN"
| "js_sub NegInf NegInf = NaN"
| "js_sub PosInf _ = PosInf"
| "js_sub NegInf _ = NegInf"

fun js_div :: "jsnum \<Rightarrow> jsnum \<Rightarrow> jsnum" where
  "js_div NaN _ = NaN"
| "js_div _ NaN = NaN"
| "js_div (Fin a) (Fin b) =
     (if b = 0 then (if a = 0 then NaN else if 0 < a then PosInf else NegInf)
      else to_double (a / b))"
| "js_div (Fin _) _ = Fin 0"
| "js_div PosInf (Fin b) = (if 0 \<le> b then PosInf else NegInf)"
| "js_div NegInf (Fin b) = (if 0 \<le> b then NegInf else PosInf)"
| "js_div _ _ = NaN"

fun js_mul :: "jsnum \<Rightarrow> jsnum \<Rightarrow> jsnum" where
  "js_mul NaN _ = NaN"
| "js_mul _ NaN = NaN"
| "js_mul (Fin a) (Fin b) = to_double (a * b)"
| "js_mul (Fin a) PosInf = (if a = 0 then NaN else if 0 < a then PosInf else NegInf)"
| "js_mul (Fin a) NegInf = (if a = 0 then NaN else if 0 < a then NegInf else PosInf)"
| "js_mul PosInf (Fin b) = (if b = 0 then NaN else if 0 < b then PosInf else NegInf)"
| "js_mul NegInf (Fin b) = (if b = 0 then NaN else if 0 < b then NegInf else PosInf)"
| "js_mul PosInf PosInf = PosInf"
| "js_mul NegInf NegInf = PosInf"
| "js_mul _ _ = NegInf"

text \<open>
  \<open>parseFloat(x.toFixed(2))\<close>: \<open>toFixed\<close> takes the integer \<open>n\<close> with \<open>n / 100\<close>
  nearest to \<open>|x|\<close>, the larger one on a tie, and restores the sign, and \<open>parseFloat\<close>
  reads the decimal back as the nearest double. From \<open>10^21\<close> on \<open>toFixed\<close> prints the
  number itself, which \<open>parseFloat\<close> reads back unchanged; \<open>NaN\<close> and the infinities
  print as their names and are read back.
\<close>

definition round2 :: "rat \<Rightarrow> rat" where
  "round2 x =
     (if x < 0 then - (of_int \<lfloor>(- x) * 100 + 1 / 2\<rfloor> / 100)
      else of_int \<lfloor>x * 100 + 1 / 2\<rfloor> / 100)"

fun toFixed2 :: "jsnum \<Rightarrow> jsnum" where
  "toFixed2 (Fin x) = (if 10 ^ 21 \<le> \<bar>x\<bar> then Fin x else to_double (round2 x))"
| "toFixed2 PosInf = PosInf"
| "toFixed2 NegInf = NegInf"
| "toFixed2 NaN = NaN"

text \<open>Decimal printing of a natural number, as template strings do.\<close>

fun show_nat :: "nat \<Rightarrow> string" where
  "show_nat n =
     (if n < 10 then [char_of (48 + n)]
      else show_nat (n div 10) @ [char_of (48 + n mod 10)])"

declare show_nat.simps [simp del]

section \<open>HTTP\<close>

text \<open>
  What one \<open>fetch\<close> does: the promise rejects (\<open>NetworkError\<close>), or it resolves to a
  response with a status code whose body parses as JSON to a value (\<open>Some\<close>) or does
  not parse (\<open>None\<close>, \<open>json()\<close> rejects).
\<close>

datatype 'a response = NetworkError | Response nat "'a option"

definition ok :: "nat \<Rightarrow> bool" where
  "ok status = (200 \<le> status \<and> status \<le> 299)"

datatype exn =
    Error string
  | NetworkFailure
  | SyntaxError
  | TypeError

section \<open>services/stockService.ts\<close>

record StockData =
  symbol :: string
  name :: string
  price :: rat
  changePercent :: jsnum
  volume :: rat

datatype severity = warning | info

type_synonym notification = "severity \<times> string \<times> string"

text \<open>
  The parsed quote payload: \<open>null\<close>, or an object with the fields \<open>c\<close> (current
  price), \<open>pc\<close> (previous close) and \<open>v\<close> (volume). The parsed profile payload:
  \<open>null\<close>, or an object whose \<open>name\<close> is absent or a string.
\<close>

datatype quote_json = QNull | QObj jsval jsval jsval

datatype profile_json = PNull | PObj "string option"

subsection \<open>fetchStockFromFinnhub\<close>

text \<open>Lines 94--105: the profile request and the choice of \<open>companyName\<close>.\<close>

fun companyName_of :: "string \<Rightarrow> profile_json response \<Rightarrow> exn + string" where
  "companyName_of symb NetworkError = Inl NetworkFailure"
| "companyName_of symb (Response status body) =
     (if ok status then
        (case body of
           None \<Rightarrow> Inl SyntaxError
         | Some PNull \<Rightarrow> Inl TypeError
         | Some (PObj None) \<Rightarrow> Inr symb
         | Some (PObj (Some n)) \<Rightarrow> Inr (if n \<noteq> [] then n else symb))
      else Inr symb)"

text \<open>Line 108: \<open>quoteData.c ? ((quoteData.c - quoteData.pc) / quoteData.pc) * 100 : 0\<close>.\<close>

definition changePercent_of :: "jsval \<Rightarrow> jsval \<Rightarrow> jsnum" where
  "changePercent_of c pc =
     (if truthy c
      then js_mul (js_div (js_sub (ToNumber c) (ToNumber pc)) (ToNumber pc)) (Fin 100)
      else Fin 0)"

text \<open>\<open>x || 0\<close> on a field.\<close>

fun or_zero :: "jsval \<Rightarrow> rat" where
  "or_zero (Num r) = r"
| "or_zero _ = 0"

text \<open>Lines 107--116: the record, once both requests are through.\<close>

fun make_record :: "string \<Rightarrow> string \<Rightarrow> quote_json \<Rightarrow> exn + StockData" where
  "make_record symb companyName QNull = Inl TypeError"
| "make_record symb companyName (QObj c pc v) =
     Inr \<lparr> symbol = symb, name = companyName, price = or_zero c,
           changePercent = toFixed2 (changePercent_of c pc), volume = or_zero v \<rparr>"

text \<open>The body of the \<open>try\<close> block, lines 79--116.\<close>

fun fetchStockFromFinnhub_try ::
  "string \<Rightarrow> quote_json response \<Rightarrow> profile_json response \<Rightarrow> exn + StockData" where
  "fetchStockFromFinnhub_try symb NetworkError profile = Inl NetworkFailure"
| "fetchStockFromFinnhub_try symb (Response status body) profile =
     (if \<not> ok status then
        (if status = 429 then Inl (Error ''Rate limit reached'')
         else Inl (Error (''HTTP error! status: '' @ show_nat status)))
      else
        (case body of
           None \<Rightarrow> Inl SyntaxError
         | Some quoteData \<Rightarrow>
             (case companyName_of symb profile of
                Inl e \<Rightarrow> Inl e
              | Inr companyName \<Rightarrow> make_record symb companyName quoteData)))"

text \<open>
  The whole function: the \<open>catch\<close> turns every exception of the body into \<open>null\<close>.
  The result type keeps a place for an exception that would leave the function.
\<close>

definition fetchStockFromFinnhub ::
  "string \<Rightarrow> quote_json response \<Rightarrow> profile_json response \<Rightarrow> exn + StockData option" where
  "fetchStockFromFinnhub symb quote profile =
     (case fetchStockFromFinnhub_try symb quote profile of
        Inl e \<Rightarrow> Inr None
      | Inr r \<Rightarrow> Inr (Some r))"

subsection \<open>The cache\<close>

record cache =
  cachedStockData :: "StockData list"
  cacheTimestamp :: int

definition CACHE_DURATION :: int where
  "CACHE_DURATION = 5 * 60 * 1000"

text \<open>\<open>now\<close> is what \<open>Date.now()\<close> returns at the call, in milliseconds.\<close>

definition cacheStockData :: "StockData list \<Rightarrow> int \<Rightarrow> cache \<Rightarrow> cache" where
  "cacheStockData records now st = \<lparr> cachedStockData = records, cacheTimestamp = now \<rparr>"

definition getCachedStockData :: "int \<Rightarrow> cache \<Rightarrow> StockData list" where
  "getCachedStockData now st =
     (if now - cacheTimestamp st < CACHE_DURATION then cachedStockData st else [])"

subsection \<open>fetchStocksFromFinnhub\<close>

text \<open>\<open>Promise.all\<close>: rejects as soon as one promise rejects, else the list of values.\<close>

fun promise_all :: "(exn + 'a) list \<Rightarrow> exn + 'a list" where
  "promise_all [] = Inr []"
| "promise_all (Inl e # ps) = Inl e"
| "promise_all (Inr x # ps) = (case promise_all ps of Inl e \<Rightarrow> Inl e | Inr xs \<Rightarrow> Inr (x # xs))"

text \<open>\<open>filter(Boolean)\<close> on a list of records and \<open>null\<close>s.\<close>

fun filter_Boolean :: "'a option list \<Rightarrow> 'a list" where
  "filter_Boolean [] = []"
| "filter_Boolean (None # xs) = filter_Boolean xs"
| "filter_Boolean (Some x # xs) = x # filter_Boolean xs"

text \<open>
  \<open>quotes\<close> and \<open>profiles\<close> give the outcome of the two requests for each symbol;
  \<open>now\<close> is the clock reading inside \<open>cacheStockData\<close>. The result is the value
  returned or the exception rethrown, with the cache as the call leaves it.
\<close>

definition fetchStocksFromFinnhub ::
  "string list \<Rightarrow> (string \<Rightarrow> quote_json response) \<Rightarrow> (string \<Rightarrow> profile_json response) \<Rightarrow>
   int \<Rightarrow> cache \<Rightarrow> (exn + StockData list) \<times> cache" where
  "fetchStocksFromFinnhub symbols quotes profiles now st =
     (case promise_all (map (\<lambda>s. fetchStockFromFinnhub s (quotes s) (profiles s)) symbols) of
        Inl e \<Rightarrow> (Inl e, st)
      | Inr stockResults \<Rightarrow>
          (let validResults = filter_Boolean stockResults
           in (Inr validResults, cacheStockData validResults now st)))"

subsection \<open>fetchStockData\<close>

definition symbols :: "string list" where
  "symbols = [''AAPL'', ''GOOGL'', ''MSFT'', ''AMZN'', ''TSLA'', ''META'', ''NVDA'', ''NFLX'',
              ''JPM'', ''JNJ'']"

text \<open>
  \<open>API_KEY\<close> is the environment variable (absent or a string); \<open>onNotification\<close> says
  whether a callback was passed, and the notifications it received are returned in
  order; the callback is taken to return normally. \<open>now1\<close> is the clock reading of
  the store inside the batch loader, \<open>now2\<close> the one of the later
  \<open>getCachedStockData\<close>.
\<close>

definition emit :: "bool \<Rightarrow> notification \<Rightarrow> notification list" where
  "emit onNotification n = (if onNotification then [n] else [])"

definition fetchStockData ::
  "string option \<Rightarrow> bool \<Rightarrow> (string \<Rightarrow> quote_json response) \<Rightarrow>
   (string \<Rightarrow> profile_json response) \<Rightarrow> int \<Rightarrow> int \<Rightarrow> cache \<Rightarrow>
   (exn + StockData list) \<times> notification list \<times> cache" where
  "fetchStockData API_KEY onNotification quotes profiles now1 now2 st =
     (if API_KEY = None \<or> API_KEY = Some [] then
        (Inl (Error ''Finnhub API key not found. Please add REACT_APP_FINNHUB_API_KEY to your .env file.''),
         [], st)
      else
        (case fetchStocksFromFinnhub symbols quotes profiles now1 st of (r, st1) \<Rightarrow>
          (case (case r of
                   Inl e \<Rightarrow> Inl e
                 | Inr stockData \<Rightarrow>
                     if length stockData = 0
                     then Inl (Error ''No valid stock data received from API'')
                     else Inr stockData) of
             Inr stockData \<Rightarrow>
               (Inr stockData,
                emit onNotification
                  (info, ''Data Updated'',
                   ''Successfully loaded '' @ show_nat (length stockData) @
                   '' stocks with real-time data from Finnhub.''),
                st1)
           | Inl error \<Rightarrow>
               (let cachedData = getCachedStockData now2 st1 in
                if length cachedData > 0 then
                  (Inr cachedData,
                   emit onNotification
                     (warning, ''Using Cached Data'',
                      ''API temporarily unavailable. Showing cached data from previous session.''),
                   st1)
                else (Inl (Error ''Failed to fetch stock data from Finnhub API''), [], st1)))))"

section \<open>components/StockChart.tsx\<close>

text \<open>
  The parsed candle payload: \<open>null\<close>, or an object whose \<open>t\<close> (timestamps) and \<open>c\<close>
  (close prices) are each absent or an array.
\<close>

datatype candle_json = CNull | CObj "int list option" "rat list option"

record HistoricalData =
  labels :: "string list"
  data :: "jsnum list"

text \<open>The component's state after the effect has run.\<close>

record chart_state =
  chartData :: HistoricalData
  loading :: bool
  error :: "string option"

subsection \<open>fetchHistoricalDataWithRetry\<close>

text \<open>
  One pass through the \<open>try\<close> block of the loop body (lines 92--110): it returns the
  parsed payload, reaches the rate-limit branch, or throws.
\<close>

datatype attempt_result = Returned candle_json | RateLimited | Thrown exn

fun attempt_once :: "candle_json response \<Rightarrow> attempt_result" where
  "attempt_once NetworkError = Thrown NetworkFailure"
| "attempt_once (Response status body) =
     (if \<not> ok status then
        (if status = 429 then RateLimited
         else Thrown (Error (''HTTP error! status: '' @ show_nat status)))
      else
        (case body of
           None \<Rightarrow> Thrown SyntaxError
         | Some d \<Rightarrow> Returned d))"

text \<open>
  The \<open>for\<close> loop from a given value of \<open>attempt\<close>. \<open>responses i\<close> is the outcome of
  the request made in the iteration with \<open>attempt = i\<close>; \<open>delays\<close> collects the
  arguments of the \<open>delay\<close> calls awaited so far, in milliseconds. \<open>continue\<close> goes to
  the loop's increment.
\<close>

function retry_loop ::
  "(nat \<Rightarrow> candle_json response) \<Rightarrow> nat \<Rightarrow> nat \<Rightarrow> nat list \<Rightarrow> (exn + candle_json) \<times> nat list" where
  "retry_loop responses retries attempt delays =
     (if attempt \<le> retries then
        (case attempt_once (responses attempt) of
           Returned d \<Rightarrow> (Inr d, delays)
         | RateLimited \<Rightarrow> retry_loop responses retries (Suc attempt) (delays @ [2000])
         | Thrown e \<Rightarrow>
             if attempt = retries then (Inl e, delays)
             else retry_loop responses retries (Suc attempt) (delays @ [1000 * 2 ^ attempt]))
      else (Inl (Error ''Failed to fetch historical data after retries''), delays))"
  by pat_completeness auto
termination
  by (relation "measure (\<lambda>(responses, retries, attempt, delays). Suc retries - attempt)") auto

declare retry_loop.simps [simp del]

definition fetchHistoricalDataWithRetry ::
  "(nat \<Rightarrow> candle_json response) \<Rightarrow> nat \<Rightarrow> (exn + candle_json) \<times> nat list" where
  "fetchHistoricalDataWithRetry responses retries = retry_loop responses retries 0 []"

subsection \<open>generateFallbackData\<close>

text \<open>
  Lines 141--142: \<open>change = (Math.random() - 0.5) * 0.1\<close> and
  \<open>currentPrice * (1 + change)\<close>, for the value \<open>u\<close> of \<open>Math.random()\<close>. The literal
  \<open>0.1\<close> is the double nearest to one tenth.
\<close>

definition price_step :: "jsnum \<Rightarrow> rat \<Rightarrow> jsnum" where
  "price_step currentPrice u =
     (let change = js_mul (js_sub (Fin u) (Fin (1 / 2))) (to_double (1 / 10))
      in js_mul currentPrice (js_add (Fin 1) change))"

text \<open>
  The loop \<open>for (let i = days; i >= 0; i--)\<close> with \<open>Suc i\<close> iterations left:
  \<open>dayLabel i\<close> is the formatted date of today minus \<open>i\<close> days, \<open>random k\<close> the value of
  the \<open>k\<close>-th call of \<open>Math.random()\<close>, \<open>currentPrice\<close> the running price.
\<close>

fun fallback_loop ::
  "(nat \<Rightarrow> string) \<Rightarrow> (nat \<Rightarrow> rat) \<Rightarrow> nat \<Rightarrow> nat \<Rightarrow> jsnum \<Rightarrow> string list \<times> jsnum list" where
  "fallback_loop dayLabel random 0 k currentPrice = ([], [])"
| "fallback_loop dayLabel random (Suc i) k currentPrice =
     (let currentPrice' = price_step currentPrice (random k);
          rest = fallback_loop dayLabel random i (Suc k) currentPrice'
      in (dayLabel i # fst rest, toFixed2 currentPrice' # snd rest))"

definition generateFallbackData ::
  "StockData \<Rightarrow> (nat \<Rightarrow> string) \<Rightarrow> (nat \<Rightarrow> rat) \<Rightarrow> HistoricalData" where
  "generateFallbackData stock dayLabel random =
     (let days = 30;
          r = fallback_loop dayLabel random (Suc days) 0 (Fin (price stock))
      in \<lparr> labels = fst r, data = snd r \<rparr>)"

subsection \<open>fetchHistoricalData\<close>

text \<open>
  \<open>toLabel\<close> formats a Unix timestamp as a short date. The result is the component's
  state when the callback is done, with the delays awaited on the way.
\<close>

definition fetchHistoricalData ::
  "StockData \<Rightarrow> string option \<Rightarrow> (nat \<Rightarrow> candle_json response) \<Rightarrow> (int \<Rightarrow> string) \<Rightarrow>
   (nat \<Rightarrow> string) \<Rightarrow> (nat \<Rightarrow> rat) \<Rightarrow> chart_state \<times> nat list" where
  "fetchHistoricalData stock API_KEY responses toLabel dayLabel random =
     (case (if API_KEY = None \<or> API_KEY = Some [] then (Inl (Error ''API key not found''), [])
            else fetchHistoricalDataWithRetry responses 2) of
        (Inr (CObj (Some timestamps) (Some closePrices)), delays) \<Rightarrow>
          (let startIndex = nat (max 0 (int (length timestamps) - 30));
               recentTimestamps = drop startIndex timestamps;
               recentPrices = drop startIndex closePrices
           in (\<lparr> chartData =
                   \<lparr> labels = map toLabel recentTimestamps, data = map Fin recentPrices \<rparr>,
                  loading = False, error = None \<rparr>, delays))
      | (Inr _, delays) \<Rightarrow>
          (\<lparr> chartData = generateFallbackData stock dayLabel random,
              loading = False, error = None \<rparr>, delays)
      | (Inl err, delays) \<Rightarrow>
          (\<lparr> chartData = generateFallbackData stock dayLabel random,
              loading = False, error = Some ''Failed to load historical data'' \<rparr>, delays))"

section \<open>Notions used in the statements\<close>

text \<open>
  The price walk of the fallback generator before it is shown: \<open>walk random p k\<close> is
  the running price after \<open>k + 1\<close> steps from \<open>p\<close>.
\<close>

fun walk :: "(nat \<Rightarrow> rat) \<Rightarrow> jsnum \<Rightarrow> nat \<Rightarrow> jsnum" where
  "walk random p 0 = price_step p (random 0)"
| "walk random p (Suc k) = price_step (walk random p k) (random (Suc k))"

text \<open>Two finite numbers, the second within the factor \<open>k\<close> of the first.\<close>

fun within_step :: "rat \<Rightarrow> jsnum \<Rightarrow> jsnum \<Rightarrow> bool" where
  "within_step k (Fin a) (Fin b) = (\<bar>b - a\<bar> \<le> k * \<bar>a\<bar>)"
| "within_step k _ _ = False"

text \<open>What the per-symbol fetch hands to the batch loader for a symbol.\<close>

definition fetched ::
  "(string \<Rightarrow> quote_json response) \<Rightarrow> (string \<Rightarrow> profile_json response) \<Rightarrow> string \<Rightarrow>
   StockData option" where
  "fetched quotes profiles s =
     (case fetchStockFromFinnhub_try s (quotes s) (profiles s) of
        Inl e \<Rightarrow> None
      | Inr r \<Rightarrow> Some r)"

text \<open>The wait that follows a failed attempt with index \<open>i\<close>.\<close>

definition wait_after :: "(nat \<Rightarrow> candle_json response) \<Rightarrow> nat \<Rightarrow> nat" where
  "wait_after responses i =
     (case attempt_once (responses i) of RateLimited \<Rightarrow> 2000 | _ \<Rightarrow> 1000 * 2 ^ i)"

text \<open>
  The exception that leaves the loop when no attempt returned a payload, given the
  outcome of the last attempt, and the number of waits made on the way.
\<close>

fun exhausted_error :: "attempt_result \<Rightarrow> exn" where
  "exhausted_error (Thrown e) = e"
| "exhausted_error _ = Error ''Failed to fetch historical data after retries''"

fun exhausted_waits :: "attempt_result \<Rightarrow> nat \<Rightarrow> nat" where
  "exhausted_waits RateLimited retries = Suc retries"
| "exhausted_waits _ retries = retries"

text \<open>The profile request neither rejects nor delivers a body that makes the body throw.\<close>

fun profile_completes :: "profile_json response \<Rightarrow> bool" where
  "profile_completes NetworkError = False"
| "profile_completes (Response status body) =
     (ok status \<longrightarrow> (case body of Some (PObj n) \<Rightarrow> True | _ \<Rightarrow> False))"

text \<open>The candle payload lacks the timestamp array or the close-price array.\<close>

fun lacks_series :: "candle_json \<Rightarrow> bool" where
  "lacks_series (CObj (Some t) (Some c)) = False"
| "lacks_series _ = True"

subsection \<open>Concrete inputs\<close>

definition unreachable :: "string \<Rightarrow> 'a response" where
  "unreachable symb = NetworkError"

definition apple :: StockData where
  "apple = \<lparr> symbol = ''AAPL'', name = ''Apple Inc'', price = 110, changePercent = Fin 10,
             volume = 0 \<rparr>"

definition penny :: StockData where
  "penny = \<lparr> symbol = ''PNY'', name = ''Penny Corp'', price = 295 / 2048, changePercent = Fin 0,
             volume = 0 \<rparr>"

definition good_candles :: candle_json where
  "good_candles = CObj (Some [86400, 172800]) (Some [109, 110])"

definition limited_thrice :: "nat \<Rightarrow> candle_json response" where
  "limited_thrice i = (if i < 3 then Response 429 None else Response 200 (Some good_candles))"

definition limited_then_down :: "nat \<Rightarrow> candle_json response" where
  "limited_then_down i =
     (if i = 0 then Response 429 None
      else if i = 1 then NetworkError
      else Response 200 (Some good_candles))"

definition two_quotes :: "string \<Rightarrow> quote_json response" where
  "two_quotes symb =
     (if symb = ''AAPL'' then Response 200 (Some (QObj (Num 110) (Num 100) Undefined))
      else if symb = ''MSFT'' then Response 200 (Some (QObj (Num 0) (Num 0) (Num 5)))
      else Response 429 None)"

definition apple_plain :: StockData where
  "apple_plain = \<lparr> symbol = ''AAPL'', name = ''AAPL'', price = 110, changePercent = Fin 10,
                   volume = 0 \<rparr>"

definition microsoft_plain :: StockData where
  "microsoft_plain = \<lparr> symbol = ''MSFT'', name = ''MSFT'', price = 0, changePercent = Fin 0,
                       volume = 5 \<rparr>"

definition no_profile :: "string \<Rightarrow> profile_json response" where
  "no_profile symb = Response 404 None"

definition always_down :: "nat \<Rightarrow> candle_json response" where
  "always_down i = NetworkError"

definition always_limited :: "nat \<Rightarrow> candle_json response" where
  "always_limited i = Response 429 None"

definition no_close_prices :: "nat \<Rightarrow> candle_json response" where
  "no_close_prices i = Response 200 (Some (CObj (Some [86400]) None))"

definition iso_day :: "nat \<Rightarrow> string" where
  "iso_day i = ''day-'' @ show_nat i"

definition iso_stamp :: "int \<Rightarrow> string" where
  "iso_stamp ts = ''t'' @ show_nat (nat ts)"

definition one_uptick :: "nat \<Rightarrow> rat" where
  "one_uptick k = (if k = 1 then 5 / 8 else 1 / 2)"

definition always_zero :: "nat \<Rightarrow> rat" where
  "always_zero k = 0"

definition penny_chart :: chart_state where
  "penny_chart =
     fst (fetchHistoricalData penny (Some ''key'') no_close_prices iso_stamp iso_day one_uptick)"

section \<open>Rounding to two decimals\<close>

lemma round2_close: "\<bar>round2 x - x\<bar> \<le> 1 / 200"
  unfolding round2_def by (auto simp: abs_if; linarith)

lemma round2_grid: "round2 x * 100 \<in> \<int>"
  unfolding round2_def by auto

lemma floor_half: "\<lfloor>1 / 2 :: rat\<rfloor> = 0"
  by (rule floor_unique) auto

lemma round2_zero: "round2 0 = 0"
  by (simp add: round2_def floor_half)

lemma round2_hundredths: "\<exists>n::int. round2 x = of_int n / 100"
proof (cases "x < 0")
  case True
  then have "round2 x = of_int (- \<lfloor>(- x) * 100 + 1 / 2\<rfloor>) / 100"
    by (simp add: round2_def)
  then show ?thesis by blast
next
  case False
  then have "round2 x = of_int \<lfloor>x * 100 + 1 / 2\<rfloor> / 100"
    by (simp add: round2_def)
  then show ?thesis by blast
qed

section \<open>Rounding to a double\<close>

lemma round_even_close: "\<bar>of_int (round_even z) - z\<bar> \<le> 1 / 2"
  unfolding round_even_def Let_def by (auto simp: abs_if; linarith)

lemma binade_lower:
  assumes "x \<noteq> 0"
  shows "2 powi (binade x) \<le> \<bar>x\<bar>"
proof (cases "1 \<le> \<bar>x\<bar>")
  case True
  let ?n = "\<lfloor>\<bar>x\<bar>\<rfloor>"
  from True have n: "0 < ?n" by linarith
  then have b: "1 \<le> bitlen ?n" by (auto simp: bitlen_alt_def)
  from bitlen_bounds [OF n] have "2 ^ nat (bitlen ?n - 1) \<le> ?n" ..
  then have "(of_int (2 ^ nat (bitlen ?n - 1)) :: rat) \<le> of_int ?n"
    by (simp only: of_int_le_iff)
  also have "\<dots> \<le> \<bar>x\<bar>" by simp
  finally have "(2::rat) ^ nat (bitlen ?n - 1) \<le> \<bar>x\<bar>" by simp
  with True b show ?thesis by (simp add: binade_def power_int_def)
next
  case False
  let ?y = "1 / \<bar>x\<bar>"
  let ?n = "\<lceil>?y\<rceil> - 1"
  from False assms have y: "1 < ?y" by simp
  then have n: "0 < ?n" by linarith
  from n have k: "1 \<le> bitlen ?n" by (auto simp: bitlen_alt_def)
  from bitlen_bounds [OF n] have "?n < 2 ^ nat (bitlen ?n)" ..
  then have "\<lceil>?y\<rceil> \<le> 2 ^ nat (bitlen ?n)" by simp
  then have "?y \<le> of_int (2 ^ nat (bitlen ?n))"
    by (simp only: ceiling_le_iff)
  then have "?y \<le> 2 ^ nat (bitlen ?n)"
    by simp
  then have "1 / 2 ^ nat (bitlen ?n) \<le> \<bar>x\<bar>"
    using assms by (simp add: field_simps)
  with False k show ?thesis
    by (simp add: binade_def power_int_def field_simps)
qed

lemma to_double_zero: "to_double 0 = Fin 0"
  by (simp add: to_double_def)

text \<open>
  Below \<open>2^1023\<close> in size a rounding stays finite and is off by at most the relative
  error \<open>2^(-53)\<close> plus the absolute error \<open>2^(-1075)\<close> of the subnormal range.
\<close>

lemma to_double_error:
  assumes "\<bar>x\<bar> \<le> 2 ^ 1023"
  shows "\<exists>v. to_double x = Fin v \<and> \<bar>v - x\<bar> \<le> \<bar>x\<bar> / 2 ^ 53 + 1 / 2 ^ 1075"
proof (cases "x = 0")
  case True
  then show ?thesis by (simp add: to_double_def)
next
  case False
  define e where "e = max (binade x) (- 1022)"
  define q :: rat where "q = 2 powi (e - 52)"
  define v where "v = of_int (round_even (\<bar>x\<bar> / q)) * q"
  have q: "0 < q" by (simp add: q_def)
  have "v - \<bar>x\<bar> = (of_int (round_even (\<bar>x\<bar> / q)) - \<bar>x\<bar> / q) * q"
    using q by (simp add: v_def field_simps)
  then have "\<bar>v - \<bar>x\<bar>\<bar> = \<bar>of_int (round_even (\<bar>x\<bar> / q)) - \<bar>x\<bar> / q\<bar> * q"
    using q by (simp only: abs_mult abs_of_pos)
  also have "\<dots> \<le> 1 / 2 * q"
    using round_even_close [of "\<bar>x\<bar> / q"] q by (intro mult_right_mono) simp_all
  finally have close: "\<bar>v - \<bar>x\<bar>\<bar> \<le> q / 2" by simp
  have half: "q / 2 \<le> \<bar>x\<bar> / 2 ^ 53 + 1 / 2 ^ 1075"
  proof (cases "- 1022 \<le> binade x")
    case True
    then have "e = binade x" by (simp add: e_def)
    then have "q = 2 powi (binade x) / 2 ^ 52"
      by (simp add: q_def power_int_diff)
    with binade_lower [OF False] show ?thesis by (simp add: field_simps)
  next
    case False
    then have "e = - 1022" by (simp add: e_def)
    then have "q = 1 / 2 ^ 1074" by (simp add: q_def power_int_def field_simps)
    then show ?thesis by simp
  qed
  have "v \<le> \<bar>x\<bar> + (\<bar>x\<bar> / 2 ^ 53 + 1 / 2 ^ 1075)"
    using close half by linarith
  also have "\<dots> \<le> 2 ^ 1023 + (2 ^ 1023 / 2 ^ 53 + 1 / 2 ^ 1075)"
    using assms by (intro add_mono divide_right_mono) simp_all
  also have "\<dots> < 2 ^ 1024" by simp
  finally have small: "v < 2 ^ 1024" .
  have "to_double x =
      (if 2 ^ 1024 \<le> v then (if 0 < x then PosInf else NegInf)
       else Fin (if 0 < x then v else - v))"
    unfolding v_def q_def e_def to_double_def Let_def using False by (simp only: if_False)
  with small have res: "to_double x = Fin (if 0 < x then v else - v)"
    by simp
  have "\<bar>(if 0 < x then v else - v) - x\<bar> = \<bar>v - \<bar>x\<bar>\<bar>"
    using False by (auto simp: abs_if)
  with close half res show ?thesis by (intro exI [of _ "if 0 < x then v else - v"]) simp
qed

text \<open>Rules that let the simplifier compute a rounding at a numeral.\<close>

lemma floor_rat_numeral: "\<lfloor>numeral a / numeral b :: rat\<rfloor> = numeral a div numeral b"
  using floor_divide_of_int_eq [of "numeral a" "numeral b", where ?'a = rat] by simp

lemma ceiling_rat_numeral: "\<lceil>numeral a / numeral b :: rat\<rceil> = - (- numeral a div numeral b)"
  using floor_divide_of_int_eq [of "- numeral a" "numeral b", where ?'a = rat]
  by (simp add: ceiling_def)

lemma bitlen_numeral: "bitlen (numeral n) = bitlen (numeral n div 2) + 1"
  by (subst compute_bitlen) simp

lemma bitlen_one: "bitlen 1 = 1"
  by (subst compute_bitlen) simp

lemmas dbl_eval = to_double_def binade_def round_even_def Let_def power_int_def
  power_one_over power_inverse floor_rat_numeral ceiling_rat_numeral bitlen_numeral bitlen_one

lemma toFixed2_zero: "toFixed2 (Fin 0) = Fin 0"
  by (simp add: round2_zero to_double_zero)

text \<open>
  The spec's example, price 110 over previous close 100, and a pair at which rounding
  in doubles shows: 183 over 160 is 14.375 exactly, \<open>14.374999999999998\<close> in doubles,
  and \<open>14.37\<close> after \<open>toFixed(2)\<close>.
\<close>

lemma changePercent_110_100: "toFixed2 (changePercent_of (Num 110) (Num 100)) = Fin 10"
  by (simp add: changePercent_of_def dbl_eval round2_def)

lemma changePercent_183_160:
  "toFixed2 (changePercent_of (Num 183) (Num 160)) = to_double (1437 / 100)"
  by (simp add: changePercent_of_def dbl_eval round2_def)

section \<open>The per-symbol fetch\<close>

lemma fetch_is_fetched:
  "fetchStockFromFinnhub s (quotes s) (profiles s) = Inr (fetched quotes profiles s)"
  by (simp add: fetchStockFromFinnhub_def fetched_def split: sum.splits)

lemma make_record_symbol: "make_record s n q = Inr r \<Longrightarrow> symbol r = s"
  by (cases q) auto

lemma try_symbol: "fetchStockFromFinnhub_try s q p = Inr r \<Longrightarrow> symbol r = s"
  by (cases q) (auto split: sum.splits if_splits option.splits dest: make_record_symbol)

lemma fetched_symbol: "fetched quotes profiles s = Some r \<Longrightarrow> symbol r = s"
  by (auto simp: fetched_def split: sum.splits dest: try_symbol)

lemma companyName_of_completes:
  "profile_completes p \<Longrightarrow> \<exists>n. companyName_of s p = Inr n"
  by (cases p) (auto split: option.splits profile_json.splits)

section \<open>The batch loader\<close>

lemma promise_all_Inr: "promise_all (map Inr xs) = Inr xs"
  by (induction xs) auto

text \<open>
  No per-symbol promise rejects, so \<open>Promise.all\<close> resolves and the \<open>catch\<close> of the
  batch loader is never entered.
\<close>

lemma batch_unfold:
  "fetchStocksFromFinnhub syms quotes profiles now st =
     (Inr (filter_Boolean (map (fetched quotes profiles) syms)),
      \<lparr> cachedStockData = filter_Boolean (map (fetched quotes profiles) syms),
         cacheTimestamp = now \<rparr>)"
proof -
  have "map (\<lambda>s. fetchStockFromFinnhub s (quotes s) (profiles s)) syms
        = map Inr (map (fetched quotes profiles) syms)"
    by (simp add: fetch_is_fetched)
  then have "promise_all (map (\<lambda>s. fetchStockFromFinnhub s (quotes s) (profiles s)) syms)
        = Inr (map (fetched quotes profiles) syms)"
    by (simp only: promise_all_Inr)
  then show ?thesis
    by (simp add: fetchStocksFromFinnhub_def cacheStockData_def Let_def)
qed

lemma symbols_of_valid:
  "(\<And>s r. f s = Some r \<Longrightarrow> symbol r = s) \<Longrightarrow>
   map symbol (filter_Boolean (map f syms)) = filter (\<lambda>s. f s \<noteq> None) syms"
  by (induction syms) (auto split: option.splits)

lemma valid_member: "Some r \<in> set xs \<Longrightarrow> r \<in> set (filter_Boolean xs)"
  by (induction xs rule: filter_Boolean.induct) auto


lemma length_valid: "length (filter_Boolean xs) \<le> length xs"
  by (induction xs rule: filter_Boolean.induct) auto

lemma once_in_distinct: "distinct xs \<Longrightarrow> x \<in> set xs \<Longrightarrow> length (filter (\<lambda>y. y = x) xs) = 1"
  by (induction xs) (auto simp: filter_empty_conv)

text \<open>
  C7. For a list of distinct symbols the batch loader returns a list that is no longer
  than the input, holds no symbol twice and only symbols of the input, and holds the
  record of every symbol whose per-symbol fetch delivered one, exactly once.
\<close>

theorem batch_loader_result:
  assumes "distinct syms"
  shows "\<exists>res. fst (fetchStocksFromFinnhub syms quotes profiles now st) = Inr res
           \<and> length res \<le> length syms
           \<and> distinct (map symbol res)
           \<and> set (map symbol res) \<subseteq> set syms
           \<and> (\<forall>s \<in> set syms. \<forall>r.
                 fetchStockFromFinnhub s (quotes s) (profiles s) = Inr (Some r) \<longrightarrow>
                 r \<in> set res \<and> length (filter (\<lambda>x. symbol x = s) res) = 1)"
proof -
  let ?f = "fetched quotes profiles"
  let ?res = "filter_Boolean (map ?f syms)"
  have syms_res: "map symbol ?res = filter (\<lambda>s. ?f s \<noteq> None) syms"
    by (rule symbols_of_valid) (rule fetched_symbol)
  have 1: "fst (fetchStocksFromFinnhub syms quotes profiles now st) = Inr ?res"
    by (simp add: batch_unfold)
  have 2: "length ?res \<le> length syms"
    using length_valid [of "map ?f syms"] by simp
  have 3: "distinct (map symbol ?res)"
    using assms by (simp add: syms_res)
  have 4: "set (map symbol ?res) \<subseteq> set syms"
    by (auto simp: syms_res)
  have 5: "r \<in> set ?res \<and> length (filter (\<lambda>x. symbol x = s) ?res) = 1"
    if s: "s \<in> set syms" and r: "fetchStockFromFinnhub s (quotes s) (profiles s) = Inr (Some r)"
    for s r
  proof
    from r have fs: "?f s = Some r" by (simp add: fetch_is_fetched)
    with s have "Some r \<in> set (map ?f syms)" by force
    then show "r \<in> set ?res" by (rule valid_member)
    have "length (filter (\<lambda>x. symbol x = s) ?res)
          = length (filter (\<lambda>y. y = s) (map symbol ?res))"
      by (simp add: filter_map comp_def)
    also have "\<dots> = 1"
      using 3 s fs by (intro once_in_distinct) (auto simp: syms_res)
    finally show "length (filter (\<lambda>x. symbol x = s) ?res) = 1" .
  qed
  from 1 2 3 4 5 show ?thesis by blast
qed

theorem batch_loader_result_witness:
  "distinct symbols
   \<and> fst (fetchStocksFromFinnhub symbols two_quotes no_profile 1000
            \<lparr> cachedStockData = [], cacheTimestamp = 0 \<rparr>) = Inr [apple_plain, microsoft_plain]
   \<and> length [apple_plain, microsoft_plain] \<le> length symbols
   \<and> distinct (map symbol [apple_plain, microsoft_plain])
   \<and> fetchStockFromFinnhub ''AAPL'' (two_quotes ''AAPL'') (no_profile ''AAPL'')
       = Inr (Some apple_plain)
   \<and> apple_plain \<in> set [apple_plain, microsoft_plain]
   \<and> length (filter (\<lambda>x. symbol x = ''AAPL'') [apple_plain, microsoft_plain]) = 1
   \<and> fetchStockFromFinnhub ''MSFT'' (two_quotes ''MSFT'') (no_profile ''MSFT'')
       = Inr (Some microsoft_plain)
   \<and> microsoft_plain \<in> set [apple_plain, microsoft_plain]
   \<and> length (filter (\<lambda>x. symbol x = ''MSFT'') [apple_plain, microsoft_plain]) = 1"
proof -
  let ?st = "\<lparr> cachedStockData = [], cacheTimestamp = 0 \<rparr>"
  have d: "distinct symbols" by (simp add: symbols_def)
  have a: "fetchStockFromFinnhub ''AAPL'' (two_quotes ''AAPL'') (no_profile ''AAPL'')
       = Inr (Some apple_plain)"
    by (simp add: fetchStockFromFinnhub_def two_quotes_def no_profile_def ok_def
        changePercent_110_100 apple_plain_def)
  have m: "fetchStockFromFinnhub ''MSFT'' (two_quotes ''MSFT'') (no_profile ''MSFT'')
       = Inr (Some microsoft_plain)"
    by (simp add: fetchStockFromFinnhub_def two_quotes_def no_profile_def ok_def
        changePercent_of_def toFixed2_zero microsoft_plain_def del: toFixed2.simps)
  have f: "fst (fetchStocksFromFinnhub symbols two_quotes no_profile 1000 ?st)
       = Inr [apple_plain, microsoft_plain]"
    using a m
    by (simp add: batch_unfold fetched_def fetchStockFromFinnhub_def symbols_def
        two_quotes_def no_profile_def ok_def split: sum.splits)
  from batch_loader_result [OF d, of two_quotes no_profile 1000 ?st] obtain res where
    r: "fst (fetchStocksFromFinnhub symbols two_quotes no_profile 1000 ?st) = Inr res"
      "length res \<le> length symbols" "distinct (map symbol res)"
      "\<forall>s \<in> set symbols. \<forall>r.
         fetchStockFromFinnhub s (two_quotes s) (no_profile s) = Inr (Some r) \<longrightarrow>
         r \<in> set res \<and> length (filter (\<lambda>x. symbol x = s) res) = 1"
    by blast
  from r(1) f have res: "res = [apple_plain, microsoft_plain]" by simp
  have "''AAPL'' \<in> set symbols" "''MSFT'' \<in> set symbols" by (simp_all add: symbols_def)
  with r(4) a m have
    "apple_plain \<in> set res \<and> length (filter (\<lambda>x. symbol x = ''AAPL'') res) = 1"
    "microsoft_plain \<in> set res \<and> length (filter (\<lambda>x. symbol x = ''MSFT'') res) = 1"
    by blast+
  with d f a m r(2,3) show ?thesis unfolding res by blast
qed




section \<open>Outcomes of the per-symbol fetch\<close>

text \<open>
  C5. Whatever the two requests do, the per-symbol fetch hands its caller a value and no
  exception; every exception of the body (a rejected request, a rate-limit or other
  non-OK status of the quote request, a body that does not parse) comes out as \<open>null\<close>.
\<close>

theorem fetchStockFromFinnhub_never_raises:
  "(\<exists>r. fetchStockFromFinnhub symb quote profile = Inr r)
   \<and> (\<forall>e. fetchStockFromFinnhub_try symb quote profile = Inl e \<longrightarrow>
         fetchStockFromFinnhub symb quote profile = Inr None)
   \<and> fetchStockFromFinnhub symb NetworkError profile = Inr None
   \<and> (\<not> ok status \<longrightarrow> fetchStockFromFinnhub symb (Response status body) profile = Inr None)
   \<and> fetchStockFromFinnhub symb (Response status None) profile = Inr None
   \<and> (ok status \<longrightarrow>
        fetchStockFromFinnhub symb (Response status (Some q)) NetworkError = Inr None)
   \<and> (ok status \<and> ok pstatus \<longrightarrow>
        fetchStockFromFinnhub symb (Response status (Some q)) (Response pstatus None) = Inr None)"
  by (simp add: fetchStockFromFinnhub_def split: sum.splits)

theorem fetchStockFromFinnhub_never_raises_witness:
  "fetchStockFromFinnhub_try ''AAPL'' (Response 429 None) NetworkError = Inl (Error ''Rate limit reached'')
   \<and> fetchStockFromFinnhub ''AAPL'' (Response 429 None) NetworkError = Inr None
   \<and> fetchStockFromFinnhub ''AAPL'' (Response 500 None) NetworkError = Inr None
   \<and> fetchStockFromFinnhub ''AAPL'' (Response 200 (Some (QObj (Num 110) (Num 100) Undefined))) NetworkError = Inr None
   \<and> fetchStockFromFinnhub ''AAPL'' (Response 200 (Some (QObj (Num 110) (Num 100) Undefined))) (Response 200 None) = Inr None"
  using fetchStockFromFinnhub_never_raises [where symb = "''AAPL''" and quote = "Response 429 None"
      and profile = NetworkError and status = 429 and body = None and pstatus = 200
      and q = "QObj (Num 110) (Num 100) Undefined"]
    fetchStockFromFinnhub_never_raises [where symb = "''AAPL''" and quote = "Response 429 None"
      and profile = NetworkError and status = 500 and body = None and pstatus = 200
      and q = "QObj (Num 110) (Num 100) Undefined"]
    fetchStockFromFinnhub_never_raises [where symb = "''AAPL''" and quote = "Response 429 None"
      and profile = NetworkError and status = 200 and body = None and pstatus = 200
      and q = "QObj (Num 110) (Num 100) Undefined"]
  by (simp add: ok_def)

text \<open>
  The part of the display-name fallback that the code has: a profile response with a
  non-OK status, without a name or with an empty name leaves the symbol as the name.
\<close>

lemma profile_fallback_name:
  "\<not> ok pstatus \<Longrightarrow> companyName_of symb (Response pstatus body) = Inr symb"
  "companyName_of symb (Response pstatus (Some (PObj None))) = Inr symb"
  "companyName_of symb (Response pstatus (Some (PObj (Some [])))) = Inr symb"
  by simp_all

text \<open>
  C4. The claim asks that a network error of the profile request leaves a record with
  the symbol as its name. At a quote request that succeeds and a profile request that
  rejects, the code returns \<open>null\<close>: the rejection is caught by the one \<open>catch\<close> around
  both requests.
\<close>

theorem profile_network_error_fails_fetch:
  "fetchStockFromFinnhub ''AAPL'' (Response 200 (Some (QObj (Num 110) (Num 100) (Num 5)))) NetworkError
     = Inr None"
  by (simp add: fetchStockFromFinnhub_def ok_def)

section \<open>The cache\<close>

text \<open>
  C6. A read of the cache less than five minutes (300000 ms) after a store returns the
  stored records; a read five minutes or more after it returns the empty list. Both
  are values: the read raises nothing.
\<close>

theorem cache_freshness:
  "(now' - now < CACHE_DURATION \<longrightarrow>
      getCachedStockData now' (cacheStockData records now st) = records)
   \<and> (CACHE_DURATION \<le> now' - now \<longrightarrow>
      getCachedStockData now' (cacheStockData records now st) = [])
   \<and> CACHE_DURATION = 300000"
  by (simp add: getCachedStockData_def cacheStockData_def CACHE_DURATION_def)

theorem cache_freshness_witness:
  "getCachedStockData 1000 (cacheStockData [apple] 1000 \<lparr> cachedStockData = [], cacheTimestamp = 0 \<rparr>)
     = [apple]
   \<and> getCachedStockData 300999 (cacheStockData [apple] 1000 \<lparr> cachedStockData = [], cacheTimestamp = 0 \<rparr>)
     = [apple]
   \<and> getCachedStockData 301000 (cacheStockData [apple] 1000 \<lparr> cachedStockData = [], cacheTimestamp = 0 \<rparr>)
     = []"
proof -
  let ?st = "\<lparr> cachedStockData = [], cacheTimestamp = 0 \<rparr>"
  have a: "(1000::int) - 1000 < CACHE_DURATION" "(300999::int) - 1000 < CACHE_DURATION"
    "CACHE_DURATION \<le> (301000::int) - 1000"
    by (simp_all add: CACHE_DURATION_def)
  from a(1) cache_freshness [of 1000 1000 "[apple]" ?st]
  have 1: "getCachedStockData 1000 (cacheStockData [apple] 1000 ?st) = [apple]" by blast
  from a(2) cache_freshness [of 300999 1000 "[apple]" ?st]
  have 2: "getCachedStockData 300999 (cacheStockData [apple] 1000 ?st) = [apple]" by blast
  from a(3) cache_freshness [of 301000 1000 "[apple]" ?st]
  have 3: "getCachedStockData 301000 (cacheStockData [apple] 1000 ?st) = []" by blast
  from 1 2 3 show ?thesis by blast
qed

section \<open>The orchestrated fetch\<close>

text \<open>
  C1. The claim asks for the cached snapshot and a warning when every per-symbol fetch
  fails and the cache is fresh. With a snapshot stored 100 ms before, an API key, a
  callback and every request rejecting, the code returns the fatal error and notifies
  nothing: the batch loader has stored the empty list before the fallback reads the
  cache.
\<close>

theorem cache_fallback_lost:
  "getCachedStockData 1001 \<lparr> cachedStockData = [apple], cacheTimestamp = 900 \<rparr> = [apple]
   \<and> fetchStockData (Some ''key'') True unreachable unreachable 1000 1001
        \<lparr> cachedStockData = [apple], cacheTimestamp = 900 \<rparr>
      = (Inl (Error ''Failed to fetch stock data from Finnhub API''), [],
         \<lparr> cachedStockData = [], cacheTimestamp = 1000 \<rparr>)"
  by (simp add: fetchStockData_def batch_unfold fetched_def unreachable_def symbols_def
      getCachedStockData_def CACHE_DURATION_def)

section \<open>The change percentage\<close>

lemma changePercent_of_falsy: "\<not> truthy c \<Longrightarrow> toFixed2 (changePercent_of c pc) = Fin 0"
  by (simp add: changePercent_of_def toFixed2_zero del: toFixed2.simps)

lemma fetch_changePercent:
  "fetchStockFromFinnhub symb (Response status (Some (QObj c pc v))) profile = Inr (Some r)
   \<Longrightarrow> changePercent r = toFixed2 (changePercent_of c pc)"
  by (auto simp: fetchStockFromFinnhub_def split: sum.splits if_splits)

lemma toFixed2_error:
  assumes "\<bar>p\<bar> \<le> 2 ^ 1000"
  shows "\<exists>v. toFixed2 (Fin p) = Fin v \<and> \<bar>v - p\<bar> \<le> 1 / 200 + (\<bar>p\<bar> + 1) / 2 ^ 53"
proof (cases "10 ^ 21 \<le> \<bar>p\<bar>")
  case True
  then show ?thesis by simp
next
  case False
  have M: "(2::rat) ^ 53 = 9007199254740992" by simp
  define \<eta> :: rat where "\<eta> = 1 / 2 ^ 1075"
  define P where "P = \<bar>p\<bar>"
  define t where "t = round2 p"
  have \<eta>: "\<eta> \<le> (1 - 1 / 200) / 9007199254740992" by (simp add: \<eta>_def)
  have c: "\<bar>t - p\<bar> \<le> 1 / 200" unfolding t_def by (rule round2_close)
  then have tb: "\<bar>t\<bar> \<le> P + 1 / 200" unfolding P_def by linarith
  have "P + 1 / 200 \<le> 2 ^ 1000 + 1 / 200" using assms by (simp add: P_def)
  also have "\<dots> \<le> 2 ^ 1023" by simp
  finally have "\<bar>t\<bar> \<le> 2 ^ 1023" using tb by linarith
  then obtain v where v: "to_double t = Fin v" "\<bar>v - t\<bar> \<le> \<bar>t\<bar> / 9007199254740992 + \<eta>"
    unfolding \<eta>_def using to_double_error [of t] M by auto
  from v(2) tb have "\<bar>v - t\<bar> \<le> (P + 1 / 200) / 9007199254740992 + \<eta>"
    by (simp only: add_divide_distrib; linarith)
  with c \<eta> have "\<bar>v - p\<bar> \<le> 1 / 200 + (P + 1) / 9007199254740992"
    by (simp only: add_divide_distrib diff_divide_distrib; linarith)
  with False v(1) show ?thesis by (simp add: P_def t_def)
qed

text \<open>Below \<open>10^21\<close> what \<open>toFixed(2)\<close> gives back is the double of a decimal with two places.\<close>

lemma toFixed2_grid:
  assumes "toFixed2 (Fin p) = Fin v" and "\<bar>v\<bar> < 10 ^ 21"
  shows "\<exists>n::int. Fin v = to_double (of_int n / 100)"
proof (cases "10 ^ 21 \<le> \<bar>p\<bar>")
  case True
  with assms show ?thesis by simp
next
  case False
  with assms(1) have v: "Fin v = to_double (round2 p)" by simp
  from round2_hundredths [of p] obtain n :: int where "round2 p = of_int n / 100" ..
  with v have "Fin v = to_double (of_int n / 100)" by (simp only:)
  then show ?thesis ..
qed

lemma changePercent_error:
  assumes x: "x \<noteq> 0" "\<bar>x\<bar> \<le> 2 ^ 64" and y: "1 / 2 ^ 64 \<le> \<bar>y\<bar>" "\<bar>y\<bar> \<le> 2 ^ 64"
  shows "\<exists>v. toFixed2 (changePercent_of (Num x) (Num y)) = Fin v
           \<and> \<bar>v - (x - y) / y * 100\<bar> \<le> 1 / 200 + (\<bar>(x - y) / y * 100\<bar> + 1) / 2 ^ 50
           \<and> (\<bar>v\<bar> < 10 ^ 21 \<longrightarrow> (\<exists>n::int. Fin v = to_double (of_int n / 100)))"
proof -
  have M: "(2::rat) ^ 53 = 9007199254740992" by simp
  define \<eta> :: rat where "\<eta> = 1 / 2 ^ 1075"
  define h :: rat where "h = \<eta> * 2 ^ 64"
  have \<eta>: "0 \<le> \<eta>" "\<eta> \<le> h" "603 * h \<le> 1 / 9007199254740992" "\<eta> \<le> 1" "0 \<le> h"
    by (simp_all add: \<eta>_def h_def)
  note err = to_double_error [unfolded M, folded \<eta>_def]
  from y have y0: "y \<noteq> 0" "0 < \<bar>y\<bar>" by auto
  have inv_y: "1 / \<bar>y\<bar> \<le> 2 ^ 64"
    using y y0 by (simp add: field_simps)
  define a where "a = x - y"
  define Q where "Q = a / y"
  define A where "A = \<bar>Q\<bar>"
  have A0: "0 \<le> A" by (simp add: A_def)
  \<comment> \<open>the subtraction\<close>
  have "\<bar>a\<bar> \<le> \<bar>x\<bar> + \<bar>y\<bar>" unfolding a_def by (rule abs_triangle_ineq4)
  also have "\<dots> \<le> 2 ^ 64 + 2 ^ 64" using x y by (intro add_mono)
  finally have ab: "\<bar>a\<bar> \<le> 36893488147419103232" by simp
  then have "\<bar>a\<bar> \<le> 2 ^ 1023" by simp
  from err [OF this] obtain s where s: "to_double a = Fin s"
      "\<bar>s - a\<bar> \<le> \<bar>a\<bar> / 9007199254740992 + \<eta>"
    by blast
  from s(2) ab \<eta>(4) have "\<bar>s\<bar> \<le> 73786976294838206464" by linarith
  then have sb: "\<bar>s\<bar> \<le> 2 ^ 66" by simp
  \<comment> \<open>the division\<close>
  define S where "S = s / y"
  have "S - Q = (s - a) / y" by (simp add: S_def Q_def diff_divide_distrib)
  then have "\<bar>S - Q\<bar> = \<bar>s - a\<bar> * (1 / \<bar>y\<bar>)" by (simp add: abs_divide)
  also have "\<dots> \<le> (\<bar>a\<bar> / 9007199254740992 + \<eta>) * (1 / \<bar>y\<bar>)"
    using s(2) by (intro mult_right_mono) simp_all
  also have "\<dots> = A / 9007199254740992 + \<eta> * (1 / \<bar>y\<bar>)"
    by (simp add: A_def Q_def abs_divide algebra_simps)
  also have "\<dots> \<le> A / 9007199254740992 + h"
    unfolding h_def using inv_y \<eta>(1) by (intro add_left_mono mult_left_mono)
  finally have eS: "\<bar>S - Q\<bar> \<le> A / 9007199254740992 + h" .
  have Sb: "\<bar>S\<bar> \<le> 2 * A + h"
    using eS A0 unfolding A_def by linarith
  have Seq: "\<bar>S\<bar> = \<bar>s\<bar> * (1 / \<bar>y\<bar>)" by (simp add: S_def abs_divide)
  also have "\<dots> \<le> 2 ^ 66 * 2 ^ 64"
    using sb inv_y by (intro mult_mono) simp_all
  finally have Sabs: "\<bar>S\<bar> \<le> 1361129467683753853853498429727072845824" by simp
  then have "\<bar>S\<bar> \<le> 2 ^ 1023" by simp
  from err [OF this] obtain d where d: "to_double S = Fin d"
      "\<bar>d - S\<bar> \<le> \<bar>S\<bar> / 9007199254740992 + \<eta>"
    by blast
  from d(2) Sb have d2: "\<bar>d - S\<bar> \<le> (2 * A + h) / 9007199254740992 + \<eta>"
    by (simp only: add_divide_distrib; linarith)
  from d2 eS \<eta> A0 have eD: "\<bar>d - Q\<bar> \<le> 3 * A / 9007199254740992 + 3 * h"
    by (simp only: add_divide_distrib; linarith)
  have db: "\<bar>d\<bar> \<le> 2 * A + 3 * h"
    using eD A0 unfolding A_def by linarith
  from d(2) Sabs \<eta>(4) have dabs: "\<bar>d\<bar> \<le> 2722258935367507707706996859454145691648" by linarith
  \<comment> \<open>the multiplication\<close>
  define D where "D = d * 100"
  have Dabs: "\<bar>D\<bar> = \<bar>d\<bar> * 100" by (simp add: D_def abs_mult)
  with dabs have Db: "\<bar>D\<bar> \<le> 272225893536750770770699685945414569164800" by linarith
  then have "\<bar>D\<bar> \<le> 2 ^ 1023" by simp
  from err [OF this] obtain p where p: "to_double D = Fin p"
      "\<bar>p - D\<bar> \<le> \<bar>D\<bar> / 9007199254740992 + \<eta>"
    by blast
  from p(2) Dabs db have p2: "\<bar>p - D\<bar> \<le> (200 * A + 300 * h) / 9007199254740992 + \<eta>"
    by (simp only: add_divide_distrib; linarith)
  have "D - Q * 100 = (d - Q) * 100" by (simp add: D_def algebra_simps)
  then have "\<bar>D - Q * 100\<bar> = \<bar>d - Q\<bar> * 100" by (simp only: abs_mult)
  with eD have D2: "\<bar>D - Q * 100\<bar> \<le> 300 * A / 9007199254740992 + 300 * h" by simp
  from p2 D2 \<eta> A0 have eP: "\<bar>p - Q * 100\<bar> \<le> 500 * A / 9007199254740992 + 602 * h"
    by (simp only: add_divide_distrib; linarith)
  have Q100: "\<bar>Q * 100\<bar> = A * 100" by (simp add: A_def abs_mult)
  from eP Q100 \<eta> A0 have pb: "\<bar>p\<bar> \<le> 200 * A + 1" by linarith
  from p(2) Db \<eta>(4) have "\<bar>p\<bar> \<le> 544451787073501541541399371890829138329600" by linarith
  then have pabs: "\<bar>p\<bar> \<le> 2 ^ 1000" by simp
  \<comment> \<open>the rounding to two decimals\<close>
  from toFixed2_error [OF pabs, unfolded M] obtain v where
    v: "toFixed2 (Fin p) = Fin v" "\<bar>v - p\<bar> \<le> 1 / 200 + (\<bar>p\<bar> + 1) / 9007199254740992"
    by blast
  from v(2) pb have v2: "\<bar>v - p\<bar> \<le> 1 / 200 + (200 * A + 2) / 9007199254740992"
    by (simp only: add_divide_distrib; linarith)
  from v2 eP \<eta> A0 have "\<bar>v - Q * 100\<bar> \<le> 1 / 200 + (A * 100 + 1) / 1125899906842624"
    by (simp only: add_divide_distrib; linarith)
  then have fin: "\<bar>v - Q * 100\<bar> \<le> 1 / 200 + (\<bar>Q * 100\<bar> + 1) / 2 ^ 50"
    by (simp add: Q100)
  have "toFixed2 (changePercent_of (Num x) (Num y)) = Fin v"
    using x(1) y0(1) s(1) d(1) p(1) v(1)
    by (simp add: changePercent_of_def S_def D_def a_def del: toFixed2.simps)
  moreover have "\<exists>n::int. Fin v = to_double (of_int n / 100)" if "\<bar>v\<bar> < 10 ^ 21"
    using toFixed2_grid [OF v(1) that] .
  ultimately show ?thesis
    using fin by (intro exI [of _ v]) (simp add: Q_def a_def)
qed

text \<open>
  C2 (amended). The guard of the computation tests the current price, not the previous
  close. In a record the fetch returns, \<open>changePercent\<close> is exactly 0 whenever the
  current price is absent, \<open>null\<close> or 0. When the current price is a number other than
  0 and the previous close a number other than 0 (here: both at most \<open>2^64\<close> in size,
  the previous close at least \<open>2^(-64)\<close>), it is finite and is the value of
  \<open>(c - pc) / pc * 100\<close> rounded to two decimals up to the rounding of double
  arithmetic: at most \<open>0.005 + (|e| + 1) / 2^50\<close> away from the exact value \<open>e\<close>, and
  (below \<open>10^21\<close>) the double of a decimal with two places.
  Nothing is said of a previous close that is 0 or absent under a current price other
  than 0.
\<close>

theorem changePercent_rounded:
  assumes "fetchStockFromFinnhub symb (Response status (Some (QObj c pc v))) profile = Inr (Some r)"
  shows "(\<not> truthy c \<longrightarrow> changePercent r = Fin 0)
       \<and> (\<forall>x y. c = Num x \<and> x \<noteq> 0 \<and> \<bar>x\<bar> \<le> 2 ^ 64
                \<and> pc = Num y \<and> 1 / 2 ^ 64 \<le> \<bar>y\<bar> \<and> \<bar>y\<bar> \<le> 2 ^ 64 \<longrightarrow>
            (\<exists>z. changePercent r = Fin z
               \<and> \<bar>z - (x - y) / y * 100\<bar> \<le> 1 / 200 + (\<bar>(x - y) / y * 100\<bar> + 1) / 2 ^ 50
               \<and> (\<bar>z\<bar> < 10 ^ 21 \<longrightarrow> (\<exists>n::int. Fin z = to_double (of_int n / 100)))))"
proof (intro conjI impI allI)
  assume "\<not> truthy c"
  then show "changePercent r = Fin 0"
    using fetch_changePercent [OF assms] by (simp add: changePercent_of_falsy del: toFixed2.simps)
next
  fix x y
  assume h: "c = Num x \<and> x \<noteq> 0 \<and> \<bar>x\<bar> \<le> 2 ^ 64
                \<and> pc = Num y \<and> 1 / 2 ^ 64 \<le> \<bar>y\<bar> \<and> \<bar>y\<bar> \<le> 2 ^ 64"
  then have "changePercent r = toFixed2 (changePercent_of (Num x) (Num y))"
    using fetch_changePercent [OF assms] by simp
  with h changePercent_error [of x y]
  show "\<exists>z. changePercent r = Fin z
               \<and> \<bar>z - (x - y) / y * 100\<bar> \<le> 1 / 200 + (\<bar>(x - y) / y * 100\<bar> + 1) / 2 ^ 50
               \<and> (\<bar>z\<bar> < 10 ^ 21 \<longrightarrow> (\<exists>n::int. Fin z = to_double (of_int n / 100)))"
    by simp
qed

theorem changePercent_rounded_witness:
  "fetchStockFromFinnhub ''AAPL'' (Response 200 (Some (QObj (Num 110) (Num 100) Undefined)))
       (Response 200 (Some (PObj (Some ''Apple Inc''))))
     = Inr (Some apple)
   \<and> changePercent apple = Fin 10
   \<and> \<bar>10 - (110 - 100) / 100 * 100\<bar> \<le> 1 / 200 + (\<bar>(110 - 100) / 100 * 100\<bar> + 1) / (2 ^ 50 :: rat)
   \<and> (\<exists>n::int. Fin 10 = to_double (of_int n / 100))
   \<and> fetchStockFromFinnhub ''MSFT'' (Response 200 (Some (QObj (Num 0) (Num 0) (Num 5))))
       (Response 404 None)
     = Inr (Some microsoft_plain)
   \<and> changePercent microsoft_plain = Fin 0"
proof -
  have f: "fetchStockFromFinnhub ''AAPL'' (Response 200 (Some (QObj (Num 110) (Num 100) Undefined)))
       (Response 200 (Some (PObj (Some ''Apple Inc'')))) = Inr (Some apple)"
    by (simp add: fetchStockFromFinnhub_def ok_def changePercent_110_100 apple_def)
  have g: "fetchStockFromFinnhub ''MSFT'' (Response 200 (Some (QObj (Num 0) (Num 0) (Num 5))))
       (Response 404 None) = Inr (Some microsoft_plain)"
    by (simp add: fetchStockFromFinnhub_def ok_def changePercent_of_def toFixed2_zero
        microsoft_plain_def del: toFixed2.simps)
  have a: "changePercent apple = Fin 10" by (simp add: apple_def)
  from changePercent_rounded [OF f] obtain z where
    "changePercent apple = Fin z"
    "\<bar>z - (110 - 100) / 100 * 100\<bar> \<le> 1 / 200 + (\<bar>(110 - 100) / 100 * 100\<bar> + 1) / 2 ^ 50"
    "\<bar>z\<bar> < 10 ^ 21 \<longrightarrow> (\<exists>n::int. Fin z = to_double (of_int n / 100))"
    by force
  with a have b: "\<bar>10 - (110 - 100) / 100 * 100\<bar>
      \<le> 1 / 200 + (\<bar>(110 - 100) / 100 * 100\<bar> + 1) / (2 ^ 50 :: rat)"
    and c: "\<exists>n::int. Fin 10 = to_double (of_int n / 100)"
    by simp_all
  from changePercent_rounded [OF g] have m: "changePercent microsoft_plain = Fin 0"
    by simp
  from f g a b c m show ?thesis by blast
qed

text \<open>
  C2 as stated fails: with current price 110 the previous close 0 gives \<open>Infinity\<close>,
  and an absent previous close gives \<open>NaN\<close>, not 0.
\<close>

theorem changePercent_zero_previous_close:
  "fetchStockFromFinnhub ''AAPL'' (Response 200 (Some (QObj (Num 110) (Num 0) (Num 5))))
       (Response 200 (Some (PObj (Some ''Apple Inc''))))
     = Inr (Some \<lparr> symbol = ''AAPL'', name = ''Apple Inc'', price = 110, changePercent = PosInf,
                    volume = 5 \<rparr>)
   \<and> fetchStockFromFinnhub ''AAPL'' (Response 200 (Some (QObj (Num 110) Undefined (Num 5))))
       (Response 200 (Some (PObj (Some ''Apple Inc''))))
     = Inr (Some \<lparr> symbol = ''AAPL'', name = ''Apple Inc'', price = 110, changePercent = NaN,
                    volume = 5 \<rparr>)"
  by (simp add: fetchStockFromFinnhub_def ok_def changePercent_of_def dbl_eval)

section \<open>A quote without a price\<close>

text \<open>
  C10. Where the record is built (lines 107--116 are reached: the quote request has
  succeeded and the profile request has not made the body throw), a current price
  that is absent, \<open>null\<close> or 0 does not signal failure: the fetch returns a record with
  price 0 and \<open>changePercent\<close> 0, and its volume is the volume field, 0 when that is
  absent.
\<close>

theorem zero_price_record:
  assumes "ok status" and "\<not> truthy c" and "profile_completes profile"
  shows "\<exists>n. fetchStockFromFinnhub symb (Response status (Some (QObj c pc v))) profile
           = Inr (Some \<lparr> symbol = symb, name = n, price = 0, changePercent = Fin 0,
                          volume = or_zero v \<rparr>)
         \<and> or_zero Undefined = 0"
proof -
  from assms(3) obtain n where n: "companyName_of symb profile = Inr n"
    using companyName_of_completes by blast
  from assms(2) have c: "or_zero c = 0" by (cases c) auto
  from assms(2) have "toFixed2 (changePercent_of c pc) = Fin 0"
    by (rule changePercent_of_falsy)
  with assms(1) n c show ?thesis
    by (auto simp: fetchStockFromFinnhub_def simp del: toFixed2.simps)
qed

theorem zero_price_record_witness:
  "ok 200 \<and> \<not> truthy (Num 0) \<and> profile_completes (Response 404 None)
   \<and> (\<exists>n. fetchStockFromFinnhub ''AAPL'' (Response 200 (Some (QObj (Num 0) (Num 0) Undefined)))
             (Response 404 None)
           = Inr (Some \<lparr> symbol = ''AAPL'', name = n, price = 0, changePercent = Fin 0,
                          volume = or_zero Undefined \<rparr>)
         \<and> or_zero Undefined = 0)"
proof -
  have h: "ok 200" "\<not> truthy (Num 0)" "profile_completes (Response 404 None)"
    by (simp_all add: ok_def)
  from h zero_price_record [OF h, of "''AAPL''" "Num 0" Undefined] show ?thesis
    by simp
qed

section \<open>The retry loop of the history fetcher\<close>

lemma retry_loop_rate_limited:
  "attempt \<le> retries \<Longrightarrow> attempt_once (responses attempt) = RateLimited \<Longrightarrow>
   retry_loop responses retries attempt delays
     = retry_loop responses retries (Suc attempt) (delays @ [2000])"
  by (subst retry_loop.simps) simp

lemma retry_loop_backoff:
  "attempt < retries \<Longrightarrow> attempt_once (responses attempt) = Thrown e \<Longrightarrow>
   retry_loop responses retries attempt delays
     = retry_loop responses retries (Suc attempt) (delays @ [1000 * 2 ^ attempt])"
  by (subst retry_loop.simps) simp

lemma retry_loop_last_throw:
  "attempt_once (responses retries) = Thrown e \<Longrightarrow>
   retry_loop responses retries retries delays = (Inl e, delays)"
  by (subst retry_loop.simps) simp

lemma retry_loop_past_budget:
  "retries < attempt \<Longrightarrow>
   retry_loop responses retries attempt delays
     = (Inl (Error ''Failed to fetch historical data after retries''), delays)"
  by (subst retry_loop.simps) simp

lemma retry_loop_returned:
  "attempt \<le> retries \<Longrightarrow> attempt_once (responses attempt) = Returned d \<Longrightarrow>
   retry_loop responses retries attempt delays = (Inr d, delays)"
  by (subst retry_loop.simps) simp

lemma retry_loop_waits:
  "attempt \<le> Suc retries \<Longrightarrow>
   \<exists>n. attempt + n \<le> Suc retries
     \<and> snd (retry_loop responses retries attempt delays)
         = delays @ map (wait_after responses) [attempt..<attempt + n]"
proof (induction responses retries attempt delays rule: retry_loop.induct)
  case (1 responses retries attempt delays)
  show ?case
  proof (cases "attempt \<le> retries")
    case False
    then have "snd (retry_loop responses retries attempt delays) = delays"
      by (simp add: retry_loop_past_budget)
    with "1.prems" show ?thesis by (intro exI [of _ 0]) simp
  next
    case le: True
    show ?thesis
    proof (cases "attempt_once (responses attempt)")
      case (Returned d)
      with le have "snd (retry_loop responses retries attempt delays) = delays"
        by (simp add: retry_loop_returned)
      with "1.prems" show ?thesis by (intro exI [of _ 0]) simp
    next
      case RateLimited
      from "1.IH"(1) [OF le RateLimited] le obtain n where
        n: "Suc attempt + n \<le> Suc retries"
           "snd (retry_loop responses retries (Suc attempt) (delays @ [2000]))
             = (delays @ [2000]) @ map (wait_after responses) [Suc attempt..<Suc attempt + n]"
        by auto
      have "wait_after responses attempt = 2000"
        by (simp add: wait_after_def RateLimited)
      moreover have "[attempt..<Suc (attempt + n)] = attempt # [Suc attempt..<Suc (attempt + n)]"
        by (subst upt_rec) simp
      ultimately show ?thesis
        using n le RateLimited
        by (intro exI [of _ "Suc n"]) (simp add: retry_loop_rate_limited del: upt_Suc)
    next
      case (Thrown e)
      show ?thesis
      proof (cases "attempt = retries")
        case True
        with Thrown have "snd (retry_loop responses retries attempt delays) = delays"
          by (simp add: retry_loop_last_throw)
        with "1.prems" show ?thesis by (intro exI [of _ 0]) simp
      next
        case False
        with le have lt: "attempt < retries" by simp
        from "1.IH"(2) [OF le Thrown False] le obtain n where
          n: "Suc attempt + n \<le> Suc retries"
             "snd (retry_loop responses retries (Suc attempt) (delays @ [1000 * 2 ^ attempt]))
               = (delays @ [1000 * 2 ^ attempt])
                 @ map (wait_after responses) [Suc attempt..<Suc attempt + n]"
          by auto
        have "wait_after responses attempt = 1000 * 2 ^ attempt"
          by (simp add: wait_after_def Thrown)
        moreover have "[attempt..<Suc (attempt + n)] = attempt # [Suc attempt..<Suc (attempt + n)]"
          by (subst upt_rec) simp
        ultimately show ?thesis
          using n lt Thrown
          by (intro exI [of _ "Suc n"]) (simp add: retry_loop_backoff del: upt_Suc)
      qed
    qed
  qed
qed

lemma retry_loop_failure:
  "fst (retry_loop responses retries attempt delays) = Inl e \<Longrightarrow>
   attempt \<le> i \<Longrightarrow> i \<le> retries \<Longrightarrow> attempt_once (responses i) \<noteq> Returned d"
proof (induction responses retries attempt delays rule: retry_loop.induct)
  case (1 responses retries attempt delays)
  from "1.prems" have le: "attempt \<le> retries" by simp
  show ?case
  proof (cases "attempt_once (responses attempt)")
    case (Returned d')
    with le "1.prems"(1) show ?thesis by (simp add: retry_loop_returned)
  next
    case RateLimited
    show ?thesis
    proof (cases "i = attempt")
      case True
      with RateLimited show ?thesis by simp
    next
      case False
      with "1.prems" have "Suc attempt \<le> i" by simp
      moreover from "1.prems"(1) le RateLimited
      have "fst (retry_loop responses retries (Suc attempt) (delays @ [2000])) = Inl e"
        by (simp add: retry_loop_rate_limited)
      ultimately show ?thesis
        using "1.IH"(1) [OF le RateLimited] "1.prems"(3) by blast
    qed
  next
    case (Thrown e')
    show ?thesis
    proof (cases "i = attempt")
      case True
      with Thrown show ?thesis by simp
    next
      case False
      with "1.prems" have si: "Suc attempt \<le> i" by simp
      with "1.prems"(3) have ne: "attempt \<noteq> retries" by simp
      with le have "attempt < retries" by simp
      with "1.prems"(1) Thrown
      have "fst (retry_loop responses retries (Suc attempt) (delays @ [1000 * 2 ^ attempt])) = Inl e"
        by (simp add: retry_loop_backoff)
      then show ?thesis
        using "1.IH"(2) [OF le Thrown ne] si "1.prems"(3) by blast
    qed
  qed
qed

lemma history_failure_falls_back:
  "fst (fetchHistoricalDataWithRetry responses 2) = Inl e \<Longrightarrow>
   fst (fetchHistoricalData stock API_KEY responses toLabel dayLabel random)
     = \<lparr> chartData = generateFallbackData stock dayLabel random, loading = False,
         error = Some ''Failed to load historical data'' \<rparr>"
  by (cases "fetchHistoricalDataWithRetry responses 2") (simp add: fetchHistoricalData_def)


lemma retry_loop_exhausted:
  "attempt \<le> retries \<Longrightarrow>
   \<forall>i. attempt \<le> i \<and> i \<le> retries \<longrightarrow> (\<forall>d. attempt_once (responses i) \<noteq> Returned d) \<Longrightarrow>
   retry_loop responses retries attempt delays
     = (Inl (exhausted_error (attempt_once (responses retries))),
        delays @ map (wait_after responses)
          [attempt..<exhausted_waits (attempt_once (responses retries)) retries])"
proof (induction responses retries attempt delays rule: retry_loop.induct)
  case (1 responses retries attempt delays)
  note le = "1.prems"(1)
  from "1.prems" have nr: "\<forall>d. attempt_once (responses attempt) \<noteq> Returned d" by blast
  show ?case
  proof (cases "attempt = retries")
    case True
    show ?thesis
    proof (cases "attempt_once (responses retries)")
      case (Returned d)
      with nr True show ?thesis by simp
    next
      case RateLimited
      then have "wait_after responses retries = 2000" by (simp add: wait_after_def)
      with RateLimited True show ?thesis
        by (simp add: retry_loop_rate_limited retry_loop_past_budget)
    next
      case (Thrown e)
      with True show ?thesis by (simp add: retry_loop_last_throw)
    qed
  next
    case False
    with le have lt: "attempt < retries" by simp
    then have sle: "Suc attempt \<le> retries" by simp
    have rest: "\<forall>i. Suc attempt \<le> i \<and> i \<le> retries \<longrightarrow>
        (\<forall>d. attempt_once (responses i) \<noteq> Returned d)"
      using "1.prems"(2) by auto
    have lt': "attempt < exhausted_waits (attempt_once (responses retries)) retries"
      using lt by (cases "attempt_once (responses retries)") simp_all
    then have split: "[attempt..<exhausted_waits (attempt_once (responses retries)) retries]
        = attempt # [Suc attempt..<exhausted_waits (attempt_once (responses retries)) retries]"
      by (rule upt_conv_Cons)
    show ?thesis
    proof (cases "attempt_once (responses attempt)")
      case (Returned d)
      with nr show ?thesis by simp
    next
      case RateLimited
      then have w: "wait_after responses attempt = 2000" by (simp add: wait_after_def)
      from "1.IH"(1) [OF le RateLimited sle rest] le RateLimited w show ?thesis
        by (simp add: retry_loop_rate_limited split)
    next
      case (Thrown e)
      then have w: "wait_after responses attempt = 1000 * 2 ^ attempt"
        by (simp add: wait_after_def)
      from "1.IH"(2) [OF le Thrown False sle rest] lt Thrown w show ?thesis
        by (simp add: retry_loop_backoff split)
    qed
  qed
qed

lemma retry_loop_success:
  "attempt \<le> i \<Longrightarrow> i \<le> retries \<Longrightarrow> attempt_once (responses i) = Returned d \<Longrightarrow>
   \<forall>j. attempt \<le> j \<and> j < i \<longrightarrow> (\<forall>d'. attempt_once (responses j) \<noteq> Returned d') \<Longrightarrow>
   retry_loop responses retries attempt delays
     = (Inr d, delays @ map (wait_after responses) [attempt..<i])"
proof (induction responses retries attempt delays rule: retry_loop.induct)
  case (1 responses retries attempt delays)
  from "1.prems" have le: "attempt \<le> retries" by simp
  show ?case
  proof (cases "attempt = i")
    case True
    with "1.prems" le show ?thesis by (simp add: retry_loop_returned)
  next
    case False
    with "1.prems" have lt: "attempt < i" and sle: "Suc attempt \<le> i" by simp_all
    with "1.prems" have ltr: "attempt < retries" by simp
    from "1.prems"(4) lt have nr: "\<forall>d'. attempt_once (responses attempt) \<noteq> Returned d'"
      by blast
    have rest: "\<forall>j. Suc attempt \<le> j \<and> j < i \<longrightarrow>
        (\<forall>d'. attempt_once (responses j) \<noteq> Returned d')"
      using "1.prems"(4) by auto
    from lt have split: "[attempt..<i] = attempt # [Suc attempt..<i]"
      by (rule upt_conv_Cons)
    show ?thesis
    proof (cases "attempt_once (responses attempt)")
      case (Returned d')
      with nr show ?thesis by simp
    next
      case RateLimited
      then have w: "wait_after responses attempt = 2000" by (simp add: wait_after_def)
      from "1.IH"(1) [OF le RateLimited sle "1.prems"(2,3) rest] le RateLimited w
      show ?thesis by (simp add: retry_loop_rate_limited split)
    next
      case (Thrown e)
      then have w: "wait_after responses attempt = 1000 * 2 ^ attempt"
        by (simp add: wait_after_def)
      from ltr have ne: "attempt \<noteq> retries" by simp
      from "1.IH"(2) [OF le Thrown ne sle "1.prems"(2,3) rest] ltr Thrown w
      show ?thesis by (simp add: retry_loop_backoff split)
    qed
  qed
qed

lemma retry_loop_requests:
  "\<forall>i. attempt \<le> i \<and> i \<le> retries \<longrightarrow> responses i = responses' i \<Longrightarrow>
   retry_loop responses retries attempt delays = retry_loop responses' retries attempt delays"
proof (induction responses retries attempt delays rule: retry_loop.induct)
  case (1 responses retries attempt delays)
  show ?case
  proof (cases "attempt \<le> retries")
    case False
    then show ?thesis by (simp add: retry_loop_past_budget)
  next
    case le: True
    with "1.prems" have same: "responses' attempt = responses attempt" by simp
    have rest: "\<forall>i. Suc attempt \<le> i \<and> i \<le> retries \<longrightarrow> responses i = responses' i"
      using "1.prems" by auto
    show ?thesis
    proof (cases "attempt_once (responses attempt)")
      case (Returned d)
      with le same show ?thesis by (simp add: retry_loop_returned)
    next
      case RateLimited
      with le same "1.IH"(1) [OF le RateLimited rest] show ?thesis
        by (simp add: retry_loop_rate_limited)
    next
      case (Thrown e)
      show ?thesis
      proof (cases "attempt = retries")
        case True
        with Thrown same show ?thesis by (simp add: retry_loop_last_throw)
      next
        case False
        with le have "attempt < retries" by simp
        with Thrown same "1.IH"(2) [OF le Thrown False rest] show ?thesis
          by (simp add: retry_loop_backoff)
      qed
    qed
  qed
qed

text \<open>
  C3 (amended). The retry loop makes at most \<open>retries + 1\<close> requests, three by
  default, rate-limited ones included: its result depends on the first
  \<open>retries + 1\<close> responses only. A rate-limit response waits a fixed 2000 ms in place
  of the backoff delay and goes on to the next attempt, which it uses up; any other
  failure at attempt index \<open>i\<close> below the budget waits \<open>1000 * 2 ^ i\<close> ms, with \<open>i\<close> the
  loop index that rate-limit responses have advanced as well; the first payload that
  arrives is returned. Once the budget is exhausted (no attempt returned a payload)
  the failure propagates to the caller: the exception of the last attempt, thrown
  without a wait, or, when the last attempt was rate-limited, the error
  \<open>Failed to fetch historical data after retries\<close> after its 2000 ms wait. A failure
  leaves the loop in no other case, and the caller answers it with the error message
  and the synthetic series.
\<close>

theorem retry_policy:
  "(attempt \<le> retries \<and> attempt_once (responses attempt) = RateLimited \<longrightarrow>
      retry_loop responses retries attempt delays
        = retry_loop responses retries (Suc attempt) (delays @ [2000]))
   \<and> (attempt < retries \<and> attempt_once (responses attempt) = Thrown e \<longrightarrow>
      retry_loop responses retries attempt delays
        = retry_loop responses retries (Suc attempt) (delays @ [1000 * 2 ^ attempt]))
   \<and> (attempt_once (responses retries) = Thrown e \<longrightarrow>
      retry_loop responses retries retries delays = (Inl e, delays))
   \<and> (attempt \<le> retries \<and> attempt_once (responses attempt) = Returned d \<longrightarrow>
      retry_loop responses retries attempt delays = (Inr d, delays))
   \<and> (retries < attempt \<longrightarrow>
      retry_loop responses retries attempt delays
        = (Inl (Error ''Failed to fetch historical data after retries''), delays))
   \<and> ((\<forall>i \<le> retries. responses i = responses' i) \<longrightarrow>
        fetchHistoricalDataWithRetry responses retries
          = fetchHistoricalDataWithRetry responses' retries)
   \<and> ((\<forall>i \<le> retries. \<forall>d'. attempt_once (responses i) \<noteq> Returned d') \<longrightarrow>
        fetchHistoricalDataWithRetry responses retries
          = (Inl (exhausted_error (attempt_once (responses retries))),
             map (wait_after responses)
               [0..<exhausted_waits (attempt_once (responses retries)) retries]))
   \<and> (attempt \<le> retries \<and> attempt_once (responses attempt) = Returned d
        \<and> (\<forall>j < attempt. \<forall>d'. attempt_once (responses j) \<noteq> Returned d') \<longrightarrow>
        fetchHistoricalDataWithRetry responses retries
          = (Inr d, map (wait_after responses) [0..<attempt]))
   \<and> (\<exists>n \<le> Suc retries.
        snd (fetchHistoricalDataWithRetry responses retries)
          = map (wait_after responses) [0..<n])
   \<and> (fst (fetchHistoricalDataWithRetry responses retries) = Inl e \<longrightarrow>
        (\<forall>i \<le> retries. \<forall>d'. attempt_once (responses i) \<noteq> Returned d'))
   \<and> (fst (fetchHistoricalDataWithRetry responses 2) = Inl e \<longrightarrow>
        fst (fetchHistoricalData stock API_KEY responses toLabel dayLabel random)
          = \<lparr> chartData = generateFallbackData stock dayLabel random, loading = False,
              error = Some ''Failed to load historical data'' \<rparr>)"
proof (intro conjI impI)
  show "\<exists>n \<le> Suc retries.
        snd (fetchHistoricalDataWithRetry responses retries)
          = map (wait_after responses) [0..<n]"
    using retry_loop_waits [of 0 retries responses "[]"]
    by (auto simp: fetchHistoricalDataWithRetry_def)
next
  assume "fst (fetchHistoricalDataWithRetry responses retries) = Inl e"
  then show "\<forall>i \<le> retries. \<forall>d'. attempt_once (responses i) \<noteq> Returned d'"
    using retry_loop_failure [of responses retries 0 "[]" e]
    by (auto simp: fetchHistoricalDataWithRetry_def)
next
  assume "\<forall>i \<le> retries. responses i = responses' i"
  then show "fetchHistoricalDataWithRetry responses retries
          = fetchHistoricalDataWithRetry responses' retries"
    unfolding fetchHistoricalDataWithRetry_def by (intro retry_loop_requests) simp
next
  assume "\<forall>i \<le> retries. \<forall>d'. attempt_once (responses i) \<noteq> Returned d'"
  then show "fetchHistoricalDataWithRetry responses retries
          = (Inl (exhausted_error (attempt_once (responses retries))),
             map (wait_after responses)
               [0..<exhausted_waits (attempt_once (responses retries)) retries])"
    using retry_loop_exhausted [of 0 retries responses "[]"]
    by (simp add: fetchHistoricalDataWithRetry_def)
next
  assume "attempt \<le> retries \<and> attempt_once (responses attempt) = Returned d
        \<and> (\<forall>j < attempt. \<forall>d'. attempt_once (responses j) \<noteq> Returned d')"
  then show "fetchHistoricalDataWithRetry responses retries
          = (Inr d, map (wait_after responses) [0..<attempt])"
    using retry_loop_success [of 0 attempt retries responses d "[]"]
    by (simp add: fetchHistoricalDataWithRetry_def)
qed (auto simp: retry_loop_rate_limited retry_loop_backoff retry_loop_last_throw
       retry_loop_returned retry_loop_past_budget history_failure_falls_back)

theorem retry_policy_witness:
  "retry_loop limited_thrice 2 2 [2000, 2000] = retry_loop limited_thrice 2 3 [2000, 2000, 2000]
   \<and> retry_loop limited_thrice 2 3 [2000, 2000, 2000]
       = (Inl (Error ''Failed to fetch historical data after retries''), [2000, 2000, 2000])
   \<and> retry_loop always_down 2 1 [1000] = retry_loop always_down 2 2 [1000, 2000]
   \<and> retry_loop always_down 2 2 [1000, 2000] = (Inl NetworkFailure, [1000, 2000])
   \<and> retry_loop limited_then_down 2 2 [2000, 2000] = (Inr good_candles, [2000, 2000])
   \<and> fetchHistoricalDataWithRetry limited_thrice 2 = fetchHistoricalDataWithRetry always_limited 2
   \<and> fetchHistoricalDataWithRetry always_down 2 = (Inl NetworkFailure, [1000, 2000])
   \<and> fetchHistoricalDataWithRetry always_limited 2
       = (Inl (Error ''Failed to fetch historical data after retries''), [2000, 2000, 2000])
   \<and> fetchHistoricalDataWithRetry limited_then_down 2 = (Inr good_candles, [2000, 2000])
   \<and> fst (fetchHistoricalData penny (Some ''key'') always_down iso_stamp iso_day one_uptick)
       = \<lparr> chartData = generateFallbackData penny iso_day one_uptick, loading = False,
           error = Some ''Failed to load historical data'' \<rparr>"
proof -
  have lim: "attempt_once (limited_thrice 2) = RateLimited"
    by (simp add: limited_thrice_def ok_def)
  have down: "attempt_once (always_down i) = Thrown NetworkFailure" for i
    by (simp add: always_down_def)
  have alim: "attempt_once (always_limited i) = RateLimited" for i
    by (simp add: always_limited_def ok_def)
  have ltd: "attempt_once (limited_then_down 0) = RateLimited"
    "attempt_once (limited_then_down 1) = Thrown NetworkFailure"
    "attempt_once (limited_then_down 2) = Returned good_candles"
    by (simp_all add: limited_then_down_def ok_def)
  have same: "\<forall>i \<le> 2. limited_thrice i = always_limited i"
    by (simp add: limited_thrice_def always_limited_def)
  have wd: "map (wait_after always_down) [0..<2] = [1000, 2000]"
    by (simp add: wait_after_def down upt_conv_Cons)
  have wl: "map (wait_after always_limited) [0..<3] = [2000, 2000, 2000]"
    by (simp add: wait_after_def alim upt_conv_Cons)
  have wt: "map (wait_after limited_then_down) [0..<2] = [2000, 2000]"
    using ltd by (simp add: wait_after_def upt_conv_Cons)
  have before: "\<forall>j < 2. \<forall>d'. attempt_once (limited_then_down j) \<noteq> Returned d'"
    using ltd(1,2) by (auto simp: less_Suc_eq numeral_2_eq_2)
  from lim retry_policy [where attempt = 2 and retries = 2 and responses = limited_thrice and delays = "[2000, 2000]" and e = NetworkFailure and d = good_candles and responses' = always_down and stock = penny and API_KEY = "Some ''key''" and toLabel = iso_stamp and dayLabel = iso_day and random = one_uptick, THEN conjunct1]
  have 1: "retry_loop limited_thrice 2 2 [2000, 2000]
      = retry_loop limited_thrice 2 3 [2000, 2000, 2000]"
    by simp
  from retry_policy [where attempt = 3 and retries = 2 and responses = limited_thrice and delays = "[2000, 2000, 2000]" and e = NetworkFailure and d = good_candles and responses' = always_down and stock = penny and API_KEY = "Some ''key''" and toLabel = iso_stamp and dayLabel = iso_day and random = one_uptick, THEN conjunct2, THEN conjunct2, THEN conjunct2, THEN conjunct2, THEN conjunct1]
  have 2: "retry_loop limited_thrice 2 3 [2000, 2000, 2000]
       = (Inl (Error ''Failed to fetch historical data after retries''), [2000, 2000, 2000])"
    by simp
  from down [of 1] retry_policy [where attempt = 1 and retries = 2 and responses = always_down and delays = "[1000]" and e = NetworkFailure and d = good_candles and responses' = always_down and stock = penny and API_KEY = "Some ''key''" and toLabel = iso_stamp and dayLabel = iso_day and random = one_uptick, THEN conjunct2, THEN conjunct1]
  have 3: "retry_loop always_down 2 1 [1000] = retry_loop always_down 2 2 [1000, 2000]"
    by (simp add: numeral_2_eq_2)
  from down [of 2] retry_policy [where attempt = 0 and retries = 2 and responses = always_down and delays = "[1000, 2000]" and e = NetworkFailure and d = good_candles and responses' = always_down and stock = penny and API_KEY = "Some ''key''" and toLabel = iso_stamp and dayLabel = iso_day and random = one_uptick, THEN conjunct2, THEN conjunct2, THEN conjunct1]
  have 4: "retry_loop always_down 2 2 [1000, 2000] = (Inl NetworkFailure, [1000, 2000])"
    by simp
  from ltd(3) retry_policy [where attempt = 2 and retries = 2 and responses = limited_then_down and delays = "[2000, 2000]" and e = NetworkFailure and d = good_candles and responses' = always_down and stock = penny and API_KEY = "Some ''key''" and toLabel = iso_stamp and dayLabel = iso_day and random = one_uptick, THEN conjunct2, THEN conjunct2, THEN conjunct2, THEN conjunct1]
  have 5: "retry_loop limited_then_down 2 2 [2000, 2000]
      = (Inr good_candles, [2000, 2000])"
    by simp
  from same retry_policy [where attempt = 0 and retries = 2 and responses = limited_thrice and delays = "[]" and e = NetworkFailure and d = good_candles and responses' = always_limited and stock = penny and API_KEY = "Some ''key''" and toLabel = iso_stamp and dayLabel = iso_day and random = one_uptick, THEN conjunct2, THEN conjunct2, THEN conjunct2, THEN conjunct2, THEN conjunct2, THEN conjunct1]
  have 6: "fetchHistoricalDataWithRetry limited_thrice 2
      = fetchHistoricalDataWithRetry always_limited 2"
    by blast
  have "\<forall>i \<le> 2. \<forall>d'. attempt_once (always_down i) \<noteq> Returned d'"
    by (simp add: down)
  from this retry_policy [where attempt = 0 and retries = 2 and responses = always_down and delays = "[]" and e = NetworkFailure and d = good_candles and responses' = always_down and stock = penny and API_KEY = "Some ''key''" and toLabel = iso_stamp and dayLabel = iso_day and random = one_uptick, THEN conjunct2, THEN conjunct2, THEN conjunct2, THEN conjunct2, THEN conjunct2, THEN conjunct2, THEN conjunct1]
  have "fetchHistoricalDataWithRetry always_down 2
      = (Inl (exhausted_error (attempt_once (always_down 2))),
         map (wait_after always_down) [0..<exhausted_waits (attempt_once (always_down 2)) 2])"
    by blast
  then have 7: "fetchHistoricalDataWithRetry always_down 2
      = (Inl NetworkFailure, [1000, 2000])"
    by (simp only: down exhausted_error.simps exhausted_waits.simps wd)
  have "\<forall>i \<le> 2. \<forall>d'. attempt_once (always_limited i) \<noteq> Returned d'"
    by (simp add: alim)
  from this retry_policy [where attempt = 0 and retries = 2 and responses = always_limited and delays = "[]" and e = NetworkFailure and d = good_candles and responses' = always_down and stock = penny and API_KEY = "Some ''key''" and toLabel = iso_stamp and dayLabel = iso_day and random = one_uptick, THEN conjunct2, THEN conjunct2, THEN conjunct2, THEN conjunct2, THEN conjunct2, THEN conjunct2, THEN conjunct1]
  have "fetchHistoricalDataWithRetry always_limited 2
      = (Inl (exhausted_error (attempt_once (always_limited 2))),
         map (wait_after always_limited)
           [0..<exhausted_waits (attempt_once (always_limited 2)) 2])"
    by blast
  moreover have "Suc 2 = 3" by simp
  ultimately have 8: "fetchHistoricalDataWithRetry always_limited 2
       = (Inl (Error ''Failed to fetch historical data after retries''), [2000, 2000, 2000])"
    by (simp only: alim exhausted_error.simps exhausted_waits.simps wl)
  from ltd(3) before retry_policy [where attempt = 2 and retries = 2 and responses = limited_then_down and delays = "[]" and e = NetworkFailure and d = good_candles and responses' = always_down and stock = penny and API_KEY = "Some ''key''" and toLabel = iso_stamp and dayLabel = iso_day and random = one_uptick, THEN conjunct2, THEN conjunct2, THEN conjunct2, THEN conjunct2, THEN conjunct2, THEN conjunct2, THEN conjunct2, THEN conjunct1]
  have "fetchHistoricalDataWithRetry limited_then_down 2
      = (Inr good_candles, map (wait_after limited_then_down) [0..<2])"
    by blast
  then have 9: "fetchHistoricalDataWithRetry limited_then_down 2
      = (Inr good_candles, [2000, 2000])"
    by (simp only: wt)
  from 7 have "fst (fetchHistoricalDataWithRetry always_down 2) = Inl NetworkFailure"
    by simp
  from this retry_policy [where attempt = 0 and retries = 2 and responses = always_down and delays = "[]" and e = NetworkFailure and d = good_candles and responses' = always_down and stock = penny and API_KEY = "Some ''key''" and toLabel = iso_stamp and dayLabel = iso_day and random = one_uptick, THEN conjunct2, THEN conjunct2, THEN conjunct2, THEN conjunct2, THEN conjunct2, THEN conjunct2, THEN conjunct2, THEN conjunct2, THEN conjunct2, THEN conjunct2]
  have 10: "fst (fetchHistoricalData penny (Some ''key'') always_down iso_stamp iso_day
        one_uptick)
       = \<lparr> chartData = generateFallbackData penny iso_day one_uptick, loading = False,
           error = Some ''Failed to load historical data'' \<rparr>"
    by blast
  from 1 2 3 4 5 6 7 8 9 10 show ?thesis by blast
qed

text \<open>
  C3 as stated fails: three rate-limit responses use up the three attempts, so the
  fetch fails though the fourth request would have succeeded; and after one
  rate-limit response a network error waits \<open>1000 * 2 ^ 1\<close> ms, not \<open>1000 * 2 ^ 0\<close>.
\<close>

theorem rate_limit_uses_budget:
  "fetchHistoricalDataWithRetry limited_thrice 2
     = (Inl (Error ''Failed to fetch historical data after retries''), [2000, 2000, 2000])
   \<and> attempt_once (limited_thrice 3) = Returned good_candles
   \<and> fetchHistoricalDataWithRetry limited_then_down 2 = (Inr good_candles, [2000, 1000 * 2 ^ 1])"
  by (simp add: fetchHistoricalDataWithRetry_def retry_loop.simps limited_thrice_def
      limited_then_down_def ok_def)

section \<open>The synthetic series\<close>

lemma walk_shift:
  "walk random p (Suc j) = walk (\<lambda>i. random (Suc i)) (walk random p 0) j"
  by (induction j) simp_all

lemma upt_0_Suc_map: "map f [0..<Suc n] = f 0 # map (\<lambda>j. f (Suc j)) [0..<n]"
proof -
  have "[0..<Suc n] = 0 # map Suc [0..<n]"
    by (simp only: map_Suc_upt upt_conv_Cons zero_less_Suc)
  then show ?thesis by (simp only: list.map map_map comp_def)
qed

lemma fallback_loop_eq:
  "fallback_loop dayLabel random n k cp
     = (map dayLabel (rev [0..<n]),
        map (\<lambda>j. toFixed2 (walk (\<lambda>i. random (k + i)) cp j)) [0..<n])"
proof (induction n arbitrary: k cp)
  case 0
  show ?case by simp
next
  case (Suc n)
  let ?cp' = "price_step cp (random k)"
  have first: "walk (\<lambda>i. random (k + i)) cp 0 = ?cp'" by simp
  have later: "walk (\<lambda>i. random (k + i)) cp (Suc j) = walk (\<lambda>i. random (Suc k + i)) ?cp' j" for j
    by (subst walk_shift) simp
  have "map (\<lambda>j. toFixed2 (walk (\<lambda>i. random (k + i)) cp j)) [0..<Suc n]
        = toFixed2 ?cp' # map (\<lambda>j. toFixed2 (walk (\<lambda>i. random (Suc k + i)) ?cp' j)) [0..<n]"
    by (simp only: upt_0_Suc_map first later)
  moreover have "map dayLabel (rev [0..<Suc n]) = dayLabel n # map dayLabel (rev [0..<n])"
    by simp
  ultimately show ?case
    by (simp only: fallback_loop.simps Let_def Suc.IH fst_conv snd_conv)
qed

lemma generateFallbackData_eq:
  "generateFallbackData stock dayLabel random
     = \<lparr> labels = map dayLabel (rev [0..<31]),
         data = map (\<lambda>k. toFixed2 (walk random (Fin (price stock)) k)) [0..<31] \<rparr>"
proof -
  have "Suc 30 = 31" by simp
  then show ?thesis
    by (simp only: generateFallbackData_def Let_def fallback_loop_eq fst_conv snd_conv
        add_0)
qed

lemma literal_tenth: "to_double (1 / 10) = Fin (3602879701896397 / 36028797018963968)"
  by (simp add: dbl_eval)

lemma price_step_error:
  assumes u: "0 \<le> u" "u < 1" and w: "\<bar>w\<bar> \<le> 2 ^ 1000"
  shows "\<exists>w'. price_step (Fin w) u = Fin w'
           \<and> \<bar>w' - w\<bar> \<le> (5 / 100 + 1 / 2 ^ 50) * \<bar>w\<bar> + 1 / 2 ^ 1075"
proof -
  have M: "(2::rat) ^ 53 = 9007199254740992" by simp
  define \<eta> :: rat where "\<eta> = 1 / 2 ^ 1075"
  have \<eta>: "0 \<le> \<eta>" "\<eta> \<le> 1 / 36028797018963968" by (simp_all add: \<eta>_def)
  note err = to_double_error [unfolded M, folded \<eta>_def]
  define D :: rat where "D = 3602879701896397 / 36028797018963968"
  \<comment> \<open>\<open>Math.random() - 0.5\<close>\<close>
  define c where "c = u - 1 / 2"
  have cb: "\<bar>c\<bar> \<le> 1 / 2" using u unfolding c_def by linarith
  then have "\<bar>c\<bar> \<le> 2 ^ 1023" by simp
  from err [OF this] obtain b where b: "to_double c = Fin b"
      "\<bar>b - c\<bar> \<le> \<bar>c\<bar> / 9007199254740992 + \<eta>"
    by blast
  from b(2) cb \<eta> have bb: "\<bar>b\<bar> \<le> 1 / 2 + 1 / 9007199254740992" by linarith
  \<comment> \<open>\<open>* 0.1\<close>\<close>
  define g where "g = b * D"
  have gabs: "\<bar>g\<bar> = \<bar>b\<bar> * D" by (simp add: g_def abs_mult D_def)
  with bb have gb: "\<bar>g\<bar> \<le> 1 / 20 + 1 / 18014398509481984"
    unfolding D_def by linarith
  then have "\<bar>g\<bar> \<le> 2 ^ 1023" by simp
  from err [OF this] obtain ch where ch: "to_double g = Fin ch"
      "\<bar>ch - g\<bar> \<le> \<bar>g\<bar> / 9007199254740992 + \<eta>"
    by blast
  from ch(2) gb \<eta> have chb: "\<bar>ch\<bar> \<le> 1 / 20 + 1 / 9007199254740992" by linarith
  \<comment> \<open>\<open>1 + change\<close>\<close>
  define t where "t = 1 + ch"
  from chb have tb: "\<bar>t\<bar> \<le> 2" unfolding t_def by linarith
  then have "\<bar>t\<bar> \<le> 2 ^ 1023" by simp
  from err [OF this] obtain f where f: "to_double t = Fin f"
      "\<bar>f - t\<bar> \<le> \<bar>t\<bar> / 9007199254740992 + \<eta>"
    by blast
  from f(2) tb \<eta> have ft: "\<bar>f - t\<bar> \<le> 3 / 9007199254740992" by linarith
  from ft chb have f1: "\<bar>f - 1\<bar> \<le> 1 / 20 + 4 / 9007199254740992"
    unfolding t_def by linarith
  then have fb: "\<bar>f\<bar> \<le> 2" by linarith
  \<comment> \<open>\<open>currentPrice * (1 + change)\<close>\<close>
  define W where "W = \<bar>w\<bar>"
  have W0: "0 \<le> W" by (simp add: W_def)
  define z where "z = w * f"
  have "\<bar>z\<bar> = W * \<bar>f\<bar>" by (simp add: z_def W_def abs_mult)
  also have "\<dots> \<le> W * 2" using fb W0 by (intro mult_left_mono)
  finally have zb: "\<bar>z\<bar> \<le> W * 2" .
  have "W * 2 \<le> 2 ^ 1000 * 2" using w by (simp add: W_def)
  also have "\<dots> \<le> (2::rat) ^ 1023" by simp
  finally have "\<bar>z\<bar> \<le> 2 ^ 1023" using zb by linarith
  from err [OF this] obtain w' where w': "to_double z = Fin w'"
      "\<bar>w' - z\<bar> \<le> \<bar>z\<bar> / 9007199254740992 + \<eta>"
    by blast
  have "z - w = w * (f - 1)" by (simp add: z_def algebra_simps)
  then have "\<bar>z - w\<bar> = W * \<bar>f - 1\<bar>" by (simp add: W_def abs_mult)
  also have "\<dots> \<le> W * (1 / 20 + 4 / 9007199254740992)"
    using f1 W0 by (intro mult_left_mono)
  finally have zw: "\<bar>z - w\<bar> \<le> W * (1 / 20 + 4 / 9007199254740992)" .
  from w'(2) zb have w2: "\<bar>w' - z\<bar> \<le> W * 2 / 9007199254740992 + \<eta>" by linarith
  from w2 zw W0 have "\<bar>w' - w\<bar> \<le> (5 / 100 + 1 / 1125899906842624) * W + \<eta>"
    by (simp only: distrib_left distrib_right; linarith)
  then have "\<bar>w' - w\<bar> \<le> (5 / 100 + 1 / 2 ^ 50) * \<bar>w\<bar> + 1 / 2 ^ 1075"
    by (simp add: W_def \<eta>_def)
  moreover have "price_step (Fin w) u = Fin w'"
    using b(1) ch(1) f(1) w'(1)
    by (simp add: price_step_def literal_tenth c_def g_def D_def t_def z_def)
  ultimately show ?thesis by blast
qed


lemma walk_finite:
  assumes r: "\<forall>k. 0 \<le> random k \<and> random k < 1" and p: "\<bar>p\<bar> \<le> 2 ^ 900"
  shows "k < 31 \<Longrightarrow>
         \<exists>w. walk random (Fin p) k = Fin w \<and> \<bar>w\<bar> + 1 \<le> 2 ^ Suc k * (\<bar>p\<bar> + 1)"
proof (induction k)
  case 0
  from p have "\<bar>p\<bar> \<le> 2 ^ 1000"
    by (rule order_trans) simp
  from price_step_error [OF r [rule_format, THEN conjunct1] r [rule_format, THEN conjunct2] this,
      of 0]
  obtain w where w: "price_step (Fin p) (random 0) = Fin w"
      "\<bar>w - p\<bar> \<le> (5 / 100 + 1 / 2 ^ 50) * \<bar>p\<bar> + 1 / 2 ^ 1075"
    by blast
  define E where "E = (5 / 100 + 1 / 2 ^ 50) * \<bar>p\<bar>"
  define h :: rat where "h = 1 / 2 ^ 1075"
  have "h \<le> 1" "E \<le> \<bar>p\<bar>"
    by (simp_all add: E_def h_def mult_left_le_one_le)
  with w(2) [folded E_def h_def] have "\<bar>w\<bar> + 1 \<le> 2 * \<bar>p\<bar> + 2" by linarith
  with w(1) show ?case by simp
next
  case (Suc k)
  then obtain w where w: "walk random (Fin p) k = Fin w"
      "\<bar>w\<bar> + 1 \<le> 2 ^ Suc k * (\<bar>p\<bar> + 1)"
    by auto
  from Suc.prems have "(2::rat) ^ Suc k \<le> 2 ^ 31"
    by (intro power_increasing) simp_all
  moreover from p have "\<bar>p\<bar> + 1 \<le> 2 ^ 900 + 1" by simp
  ultimately have "2 ^ Suc k * (\<bar>p\<bar> + 1) \<le> 2 ^ 31 * (2 ^ 900 + 1)"
    by (intro mult_mono) simp_all
  also have "\<dots> \<le> (2::rat) ^ 1000" by simp
  finally have "\<bar>w\<bar> \<le> 2 ^ 1000" using w(2) by linarith
  from price_step_error [OF r [rule_format, THEN conjunct1] r [rule_format, THEN conjunct2] this,
      of "Suc k"]
  obtain w' where w': "price_step (Fin w) (random (Suc k)) = Fin w'"
      "\<bar>w' - w\<bar> \<le> (5 / 100 + 1 / 2 ^ 50) * \<bar>w\<bar> + 1 / 2 ^ 1075"
    by blast
  define E where "E = (5 / 100 + 1 / 2 ^ 50) * \<bar>w\<bar>"
  define h :: rat where "h = 1 / 2 ^ 1075"
  define T where "T = 2 ^ Suc k * (\<bar>p\<bar> + 1)"
  have "h \<le> 1" "E \<le> \<bar>w\<bar>"
    by (simp_all add: E_def h_def mult_left_le_one_le)
  with w'(2) [folded E_def h_def] w(2) [folded T_def] have "\<bar>w'\<bar> + 1 \<le> 2 * T"
    by linarith
  also have "2 * T = 2 ^ Suc (Suc k) * (\<bar>p\<bar> + 1)" by (simp add: T_def)
  finally show ?case using w(1) w'(1) by simp
qed

lemma walk_in_range:
  assumes "\<forall>k. 0 \<le> random k \<and> random k < 1" and "\<bar>p\<bar> \<le> 2 ^ 900" and "k < 31"
  shows "\<exists>w. walk random (Fin p) k = Fin w \<and> \<bar>w\<bar> \<le> 2 ^ 1000"
proof -
  from walk_finite [OF assms] obtain w where w: "walk random (Fin p) k = Fin w"
      "\<bar>w\<bar> + 1 \<le> 2 ^ Suc k * (\<bar>p\<bar> + 1)"
    by blast
  from assms(3) have "(2::rat) ^ Suc k \<le> 2 ^ 31"
    by (intro power_increasing) simp_all
  moreover from assms(2) have "\<bar>p\<bar> + 1 \<le> 2 ^ 900 + 1" by simp
  ultimately have "2 ^ Suc k * (\<bar>p\<bar> + 1) \<le> 2 ^ 31 * (2 ^ 900 + 1)"
    by (intro mult_mono) simp_all
  also have "\<dots> \<le> (2::rat) ^ 1000" by simp
  finally have "\<bar>w\<bar> \<le> 2 ^ 1000" using w(2) by linarith
  with w(1) show ?thesis by blast
qed

lemma lacks_series_fallback:
  "API_KEY = Some key \<Longrightarrow> key \<noteq> [] \<Longrightarrow>
   fst (fetchHistoricalDataWithRetry responses 2) = Inr payload \<Longrightarrow> lacks_series payload \<Longrightarrow>
   fst (fetchHistoricalData stock API_KEY responses toLabel dayLabel random)
     = \<lparr> chartData = generateFallbackData stock dayLabel random, loading = False,
         error = None \<rparr>"
  by (cases "fetchHistoricalDataWithRetry responses 2"; cases payload rule: lacks_series.cases)
     (simp_all add: fetchHistoricalData_def split: option.splits)

text \<open>
  The walk in doubles: from price 110 with \<open>Math.random()\<close> giving 0 twice the running
  price is \<open>99.27499999999999\<close> after two steps and the second point is \<open>99.27\<close>.
\<close>

lemma second_point_from_110:
  "toFixed2 (walk always_zero (Fin 110) (Suc 0)) = to_double (9927 / 100)"
  by (simp add: always_zero_def price_step_def dbl_eval round2_def)

text \<open>
  C8 (amended). For a payload without the timestamp array or without the close-price
  array the history fetcher shows a synthetic series of exactly 31 points, labelled
  with the days 30 down to 0. The points are the values, each rounded to two decimals,
  of a walk that starts from the stock's current price and moves at every step by at
  most 5 percent of its own previous value, up to the rounding of double arithmetic
  (a relative \<open>2^(-50)\<close> and an absolute \<open>2^(-1075)\<close>); this for \<open>Math.random()\<close> in
  \<open>[0, 1)\<close> and a price of at most \<open>2^900\<close> in size. A point is at most
  \<open>0.005 + (|w| + 1) / 2^53\<close> away from the walk's value \<open>w\<close> and (below \<open>10^21\<close>) the
  double of a decimal with two places; two neighbouring points need not be within 5
  percent of each other.
\<close>

theorem fallback_series:
  assumes "API_KEY = Some key" and "key \<noteq> []"
    and "fst (fetchHistoricalDataWithRetry responses 2) = Inr payload"
    and "lacks_series payload"
    and "\<forall>k. 0 \<le> random k \<and> random k < 1"
    and "\<bar>price stock\<bar> \<le> 2 ^ 900"
  shows "fst (fetchHistoricalData stock API_KEY responses toLabel dayLabel random)
           = \<lparr> chartData =
                 \<lparr> labels = map dayLabel (rev [0..<31]),
                   data = map (\<lambda>k. toFixed2 (walk random (Fin (price stock)) k)) [0..<31] \<rparr>,
               loading = False, error = None \<rparr>
       \<and> length (data (chartData
            (fst (fetchHistoricalData stock API_KEY responses toLabel dayLabel random)))) = 31
       \<and> length (labels (chartData
            (fst (fetchHistoricalData stock API_KEY responses toLabel dayLabel random)))) = 31
       \<and> (\<exists>w. walk random (Fin (price stock)) 0 = Fin w
             \<and> \<bar>w - price stock\<bar> \<le> (5 / 100 + 1 / 2 ^ 50) * \<bar>price stock\<bar> + 1 / 2 ^ 1075)
       \<and> (\<forall>k < 30. \<exists>w w'.
             walk random (Fin (price stock)) k = Fin w
             \<and> walk random (Fin (price stock)) (Suc k) = Fin w'
             \<and> \<bar>w' - w\<bar> \<le> (5 / 100 + 1 / 2 ^ 50) * \<bar>w\<bar> + 1 / 2 ^ 1075)
       \<and> (\<forall>k < 31. \<exists>w v.
             walk random (Fin (price stock)) k = Fin w
             \<and> toFixed2 (walk random (Fin (price stock)) k) = Fin v
             \<and> \<bar>v - w\<bar> \<le> 1 / 200 + (\<bar>w\<bar> + 1) / 2 ^ 53
             \<and> (\<bar>v\<bar> < 10 ^ 21 \<longrightarrow> (\<exists>n::int. Fin v = to_double (of_int n / 100))))"
proof -
  let ?p = "price stock"
  note r0 = assms(5) [rule_format, THEN conjunct1]
  note r1 = assms(5) [rule_format, THEN conjunct2]
  have chart: "fst (fetchHistoricalData stock API_KEY responses toLabel dayLabel random)
           = \<lparr> chartData =
                 \<lparr> labels = map dayLabel (rev [0..<31]),
                   data = map (\<lambda>k. toFixed2 (walk random (Fin ?p) k)) [0..<31] \<rparr>,
               loading = False, error = None \<rparr>"
    using lacks_series_fallback [OF assms(1-4)] by (simp only: generateFallbackData_eq)
  have len: "length (data (chartData
            (fst (fetchHistoricalData stock API_KEY responses toLabel dayLabel random)))) = 31"
       "length (labels (chartData
            (fst (fetchHistoricalData stock API_KEY responses toLabel dayLabel random)))) = 31"
    by (simp_all add: chart)
  from assms(6) have "\<bar>?p\<bar> \<le> 2 ^ 1000" by (rule order_trans) simp
  from price_step_error [OF r0 r1 this, of 0]
  have first: "\<exists>w. walk random (Fin ?p) 0 = Fin w
             \<and> \<bar>w - ?p\<bar> \<le> (5 / 100 + 1 / 2 ^ 50) * \<bar>?p\<bar> + 1 / 2 ^ 1075"
    by simp
  have step: "\<exists>w w'. walk random (Fin ?p) k = Fin w \<and> walk random (Fin ?p) (Suc k) = Fin w'
             \<and> \<bar>w' - w\<bar> \<le> (5 / 100 + 1 / 2 ^ 50) * \<bar>w\<bar> + 1 / 2 ^ 1075"
    if "k < 30" for k
  proof -
    from that have "k < 31" by simp
    from walk_in_range [OF assms(5,6) this] obtain w where
      w: "walk random (Fin ?p) k = Fin w" "\<bar>w\<bar> \<le> 2 ^ 1000" by blast
    from price_step_error [OF r0 r1 w(2), of "Suc k"] w(1) show ?thesis by simp
  qed
  have shown: "\<exists>w v. walk random (Fin ?p) k = Fin w \<and> toFixed2 (walk random (Fin ?p) k) = Fin v
             \<and> \<bar>v - w\<bar> \<le> 1 / 200 + (\<bar>w\<bar> + 1) / 2 ^ 53
             \<and> (\<bar>v\<bar> < 10 ^ 21 \<longrightarrow> (\<exists>n::int. Fin v = to_double (of_int n / 100)))"
    if "k < 31" for k
  proof -
    from walk_in_range [OF assms(5,6) that] obtain w where
      w: "walk random (Fin ?p) k = Fin w" "\<bar>w\<bar> \<le> 2 ^ 1000" by blast
    from toFixed2_error [OF w(2)] obtain v where
      v: "toFixed2 (Fin w) = Fin v" "\<bar>v - w\<bar> \<le> 1 / 200 + (\<bar>w\<bar> + 1) / 2 ^ 53"
      by blast
    have "\<exists>n::int. Fin v = to_double (of_int n / 100)" if "\<bar>v\<bar> < 10 ^ 21"
      using toFixed2_grid [OF v(1) that] .
    with w(1) v show ?thesis by (simp del: toFixed2.simps)
  qed
  from chart len first step shown show ?thesis by blast
qed

lemma one_uptick_range: "\<forall>k. 0 \<le> one_uptick k \<and> one_uptick k < 1"
  by (simp add: one_uptick_def)

lemma no_close_prices_payload:
  "fst (fetchHistoricalDataWithRetry no_close_prices 2) = Inr (CObj (Some [86400]) None)"
  by (simp add: fetchHistoricalDataWithRetry_def retry_loop.simps no_close_prices_def ok_def)

lemma penny_chart_eq:
  "penny_chart = \<lparr> chartData = generateFallbackData penny iso_day one_uptick, loading = False,
         error = None \<rparr>"
  unfolding penny_chart_def
  by (rule lacks_series_fallback [OF refl _ no_close_prices_payload]) simp_all

lemma penny_walk:
  "walk one_uptick (Fin (295 / 2048)) 0 = Fin (295 / 2048)"
  "toFixed2 (Fin (295 / 2048)) = to_double (7 / 50)"
  by (simp_all add: one_uptick_def price_step_def dbl_eval round2_def)

lemma penny_walk_1:
  "toFixed2 (walk one_uptick (Fin (295 / 2048)) (Suc 0)) = to_double (3 / 20)"
  by (simp add: one_uptick_def price_step_def dbl_eval round2_def)

lemma penny_points:
  "to_double (7 / 50) = Fin (1261007895663739 / 9007199254740992)"
  "to_double (3 / 20) = Fin (5404319552844595 / 36028797018963968)"
  by (simp_all add: dbl_eval)

theorem fallback_series_witness:
  "lacks_series (CObj (Some [86400]) None)
   \<and> penny_chart = \<lparr> chartData =
                 \<lparr> labels = map iso_day (rev [0..<31]),
                   data = map (\<lambda>k. toFixed2 (walk one_uptick (Fin (price penny)) k)) [0..<31] \<rparr>,
               loading = False, error = None \<rparr>
   \<and> length (data (chartData penny_chart)) = 31
   \<and> length (labels (chartData penny_chart)) = 31
   \<and> (\<exists>w. walk one_uptick (Fin (price penny)) 0 = Fin w
         \<and> \<bar>w - price penny\<bar> \<le> (5 / 100 + 1 / 2 ^ 50) * \<bar>price penny\<bar> + 1 / 2 ^ 1075)
   \<and> (\<exists>w w'. walk one_uptick (Fin (price penny)) 0 = Fin w
         \<and> walk one_uptick (Fin (price penny)) (Suc 0) = Fin w'
         \<and> \<bar>w' - w\<bar> \<le> (5 / 100 + 1 / 2 ^ 50) * \<bar>w\<bar> + 1 / 2 ^ 1075)
   \<and> (\<exists>w v. walk one_uptick (Fin (price penny)) 0 = Fin w
         \<and> toFixed2 (walk one_uptick (Fin (price penny)) 0) = Fin v
         \<and> \<bar>v - w\<bar> \<le> 1 / 200 + (\<bar>w\<bar> + 1) / 2 ^ 53
         \<and> (\<bar>v\<bar> < 10 ^ 21 \<longrightarrow> (\<exists>n::int. Fin v = to_double (of_int n / 100))))"
proof -
  have k: "''key'' \<noteq> []" by simp
  have l: "lacks_series (CObj (Some [86400]) None)" by simp
  have b: "\<bar>price penny\<bar> \<le> 2 ^ 900" by (simp add: penny_def)
  note t = fallback_series [OF refl k no_close_prices_payload l one_uptick_range b,
      of iso_stamp iso_day, folded penny_chart_def]
  have "(0::nat) < 30" "(0::nat) < 31" by simp_all
  with l t show ?thesis by blast
qed

text \<open>
  C8 as stated fails: from the price 0.14404296875 the walk stays there and then goes
  to about 0.14584, shown as 0.14 and 0.15, a step of more than 7 percent between
  neighbouring points.
\<close>

theorem rounded_points_jump:
  "data (chartData penny_chart) ! 0 = to_double (7 / 50)
   \<and> data (chartData penny_chart) ! 1 = to_double (3 / 20)
   \<and> \<not> within_step (5 / 100) (data (chartData penny_chart) ! 0) (data (chartData penny_chart) ! 1)
   \<and> \<not> within_step (7 / 100) (data (chartData penny_chart) ! 0) (data (chartData penny_chart) ! 1)"
proof -
  have d: "data (chartData penny_chart)
        = map (\<lambda>k. toFixed2 (walk one_uptick (Fin (295 / 2048)) k)) [0..<31]"
    by (simp add: penny_chart_eq generateFallbackData_eq penny_def)
  have 0: "data (chartData penny_chart) ! 0 = to_double (7 / 50)"
    unfolding d by (subst nth_map) (simp_all del: walk.simps toFixed2.simps add: penny_walk)
  have 1: "data (chartData penny_chart) ! 1 = to_double (3 / 20)"
    unfolding d by (subst nth_map) (simp_all del: walk.simps toFixed2.simps add: penny_walk_1)
  show ?thesis unfolding 0 1 by (simp add: penny_points)
qed

end
